theory Spec2Isabelle
  imports Main
begin

section \<open>Python strings\<close>

text \<open>
  A Python \<open>str\<close> is a sequence of code points. The model uses \<open>string\<close> and reads
  each \<open>char\<close> as one code point below 256 (Latin-1), so \<open>length\<close> counts what
  Python's \<open>len\<close> counts. Text with code points above 255 is outside the model.
  The character classes below are Python's, restricted to that range.
\<close>

definition whitespace_chars :: "char list" where
  \<comment> \<open>the code points below 256 for which \<open>str.isspace\<close> holds; \<open>str.strip()\<close> and the
      regular expression \<open>\s\<close> use the same class\<close>
  "whitespace_chars =
     [CHR 0x09, CHR 0x0A, CHR 0x0B, CHR 0x0C, CHR 0x0D, CHR 0x1C, CHR 0x1D, CHR 0x1E,
      CHR 0x1F, CHR 0x20, CHR 0x85, CHR 0xA0]"

definition py_isspace :: "char \<Rightarrow> bool" where
  "py_isspace c = (c \<in> set whitespace_chars)"

definition py_lstrip :: "string \<Rightarrow> string" where
  "py_lstrip s = dropWhile py_isspace s"

definition py_rstrip :: "string \<Rightarrow> string" where
  "py_rstrip s = rev (dropWhile py_isspace (rev s))"

definition py_strip :: "string \<Rightarrow> string" where
  \<comment> \<open>\<open>s.strip()\<close>\<close>
  "py_strip s = py_rstrip (py_lstrip s)"

definition py_rstrip_char :: "char \<Rightarrow> string \<Rightarrow> string" where
  \<comment> \<open>\<open>s.rstrip(c)\<close> for a one-character argument\<close>
  "py_rstrip_char c s = rev (dropWhile (\<lambda>x. x = c) (rev s))"

function sub_ws :: "string \<Rightarrow> string" where
  \<comment> \<open>\<open>re.sub(r"\s+", " ", s)\<close>: every maximal run of whitespace becomes one space\<close>
  "sub_ws [] = []"
| "sub_ws (c # cs) =
     (if py_isspace c then CHR '' '' # sub_ws (dropWhile py_isspace cs)
      else c # sub_ws cs)"
  by pat_completeness auto
termination
  by (relation "measure length") (auto simp: le_imp_less_Suc length_dropWhile_le)

definition upper_chars :: "char list" where
  "upper_chars = ''ABCDEFGHIJKLMNOPQRSTUVWXYZ'' @
     [CHR 0xC0, CHR 0xC1, CHR 0xC2, CHR 0xC3, CHR 0xC4, CHR 0xC5, CHR 0xC6, CHR 0xC7,
      CHR 0xC8, CHR 0xC9, CHR 0xCA, CHR 0xCB, CHR 0xCC, CHR 0xCD, CHR 0xCE, CHR 0xCF,
      CHR 0xD0, CHR 0xD1, CHR 0xD2, CHR 0xD3, CHR 0xD4, CHR 0xD5, CHR 0xD6,
      CHR 0xD8, CHR 0xD9, CHR 0xDA, CHR 0xDB, CHR 0xDC, CHR 0xDD, CHR 0xDE]"

definition lower_chars :: "char list" where
  "lower_chars = ''abcdefghijklmnopqrstuvwxyz'' @
     [CHR 0xE0, CHR 0xE1, CHR 0xE2, CHR 0xE3, CHR 0xE4, CHR 0xE5, CHR 0xE6, CHR 0xE7,
      CHR 0xE8, CHR 0xE9, CHR 0xEA, CHR 0xEB, CHR 0xEC, CHR 0xED, CHR 0xEE, CHR 0xEF,
      CHR 0xF0, CHR 0xF1, CHR 0xF2, CHR 0xF3, CHR 0xF4, CHR 0xF5, CHR 0xF6,
      CHR 0xF8, CHR 0xF9, CHR 0xFA, CHR 0xFB, CHR 0xFC, CHR 0xFD, CHR 0xFE]"

definition py_lower_char :: "char \<Rightarrow> char" where
  "py_lower_char c =
     (case map_of (zip upper_chars lower_chars) c of Some l \<Rightarrow> l | None \<Rightarrow> c)"

definition py_lower :: "string \<Rightarrow> string" where
  \<comment> \<open>\<open>s.lower()\<close>\<close>
  "py_lower s = map py_lower_char s"

definition is_decimal :: "char \<Rightarrow> bool" where
  \<comment> \<open>the decimal digits \<open>int()\<close> accepts\<close>
  "is_decimal c = (c \<in> set ''0123456789'')"

definition py_isdigit_char :: "char \<Rightarrow> bool" where
  \<comment> \<open>\<open>str.isdigit\<close> below 256: it also holds for the superscript digits U+00B2,
      U+00B3, U+00B9, which \<open>int()\<close> rejects. Above 255 there are more digits of that
      kind (subscripts, circled digits); they are outside the model.\<close>
  "py_isdigit_char c = (is_decimal c \<or> c \<in> set [CHR 0xB2, CHR 0xB3, CHR 0xB9])"

definition py_isdigit :: "string \<Rightarrow> bool" where
  \<comment> \<open>\<open>s.isdigit()\<close>: non-empty and every character a digit\<close>
  "py_isdigit s = (s \<noteq> [] \<and> list_all py_isdigit_char s)"

definition digit_val :: "char \<Rightarrow> nat" where
  "digit_val c = of_char c - 48"

definition dec_value :: "string \<Rightarrow> nat" where
  "dec_value s = foldl (\<lambda>acc c. 10 * acc + digit_val c) 0 (filter is_decimal s)"

fun valid_digits :: "string \<Rightarrow> bool" where
  \<comment> \<open>decimal digits, with single underscores allowed between two digits\<close>
  "valid_digits [] = False"
| "valid_digits [c] = is_decimal c"
| "valid_digits (c # d # cs) =
     (is_decimal c \<and> (if d = CHR ''_'' then valid_digits cs else valid_digits (d # cs)))"

fun dec_nat :: "nat \<Rightarrow> string" where
  "dec_nat n =
     (if n < 10 then [''0123456789'' ! n]
      else dec_nat (n div 10) @ [''0123456789'' ! (n mod 10)])"

declare dec_nat.simps [simp del]

definition str_int :: "int \<Rightarrow> string" where
  \<comment> \<open>\<open>str(i)\<close> of an integer\<close>
  "str_int i = (if i < 0 then CHR ''-'' # dec_nat (nat (- i)) else dec_nat (nat i))"

definition hex2 :: "char \<Rightarrow> string" where
  "hex2 c = [''0123456789abcdef'' ! (of_char c div 16), ''0123456789abcdef'' ! (of_char c mod 16)]"

definition printable_char :: "char \<Rightarrow> bool" where
  \<comment> \<open>\<open>str.isprintable\<close> below 256\<close>
  "printable_char c =
     (let n = (of_char c :: nat) in (32 \<le> n \<and> n < 127) \<or> (161 \<le> n \<and> n \<noteq> 173))"

definition repr_char :: "char \<Rightarrow> char \<Rightarrow> string" where
  "repr_char quote c =
     (if c = CHR 0x5C then [CHR 0x5C, CHR 0x5C]
      else if c = quote then [CHR 0x5C, quote]
      else if c = CHR 0x09 then [CHR 0x5C, CHR ''t'']
      else if c = CHR 0x0A then [CHR 0x5C, CHR ''n'']
      else if c = CHR 0x0D then [CHR 0x5C, CHR ''r'']
      else if printable_char c then [c]
      else [CHR 0x5C, CHR ''x''] @ hex2 c)"

definition repr_str :: "string \<Rightarrow> string" where
  \<comment> \<open>\<open>repr(s)\<close>: single quotes, unless the text has a single and no double quote\<close>
  "repr_str s =
     (let quote = (if CHR 0x27 \<in> set s \<and> CHR 0x22 \<notin> set s then CHR 0x22 else CHR 0x27)
      in quote # concat (map (repr_char quote) s) @ [quote])"

fun join :: "string \<Rightarrow> string list \<Rightarrow> string" where
  \<comment> \<open>\<open>sep.join(xs)\<close> on strings\<close>
  "join sep [] = []"
| "join sep [x] = x"
| "join sep (x # y # ys) = x @ sep @ join sep (y # ys)"

section \<open>Python values and exceptions\<close>

text \<open>
  The JSON documents the registry sends and the untyped values the code passes around.
  Numbers are integers (floating point is outside the model); an integer of a decoded
  document has at most 4300 digits, since the decoder raises on a longer one. A
  dictionary is an association list in insertion order, looked up by its first matching
  key.
\<close>

datatype pyval =
    PNone
  | PBool bool
  | PInt int
  | PStr string
  | PList "pyval list"
  | PDict "(string \<times> pyval) list"

text \<open>
  What a call can raise, each with the text that \<open>str(err)\<close> returns. The first seven
  are subclasses of Python's \<open>Exception\<close>. \<open>CancelledError\<close> (\<open>asyncio.CancelledError\<close>,
  raised at an \<open>await\<close> when the task is cancelled) and \<open>KeyboardInterrupt\<close> derive from
  \<open>BaseException\<close> only, so \<open>except Exception\<close> does not catch them. The wording of the
  interpreter's own messages follows CPython 3.11; no property below depends on it.
\<close>

datatype exn =
    ValueError string
  | TypeError string
  | AttributeError string
  | NameError string
  | PlainException string
  | TransportError string
  | JSONDecodeError string
  | CancelledError string
  | KeyboardInterrupt string

fun is_exception :: "exn \<Rightarrow> bool" where
  \<comment> \<open>\<open>isinstance(err, Exception)\<close>\<close>
  "is_exception (CancelledError m) = False"
| "is_exception (KeyboardInterrupt m) = False"
| "is_exception e = True"

fun exn_str :: "exn \<Rightarrow> string" where
  \<comment> \<open>\<open>str(err)\<close>\<close>
  "exn_str (ValueError m) = m"
| "exn_str (TypeError m) = m"
| "exn_str (AttributeError m) = m"
| "exn_str (NameError m) = m"
| "exn_str (PlainException m) = m"
| "exn_str (TransportError m) = m"
| "exn_str (JSONDecodeError m) = m"
| "exn_str (CancelledError m) = m"
| "exn_str (KeyboardInterrupt m) = m"

fun py_truthy :: "pyval \<Rightarrow> bool" where
  "py_truthy PNone = False"
| "py_truthy (PBool b) = b"
| "py_truthy (PInt i) = (i \<noteq> 0)"
| "py_truthy (PStr s) = (s \<noteq> [])"
| "py_truthy (PList xs) = (xs \<noteq> [])"
| "py_truthy (PDict kvs) = (kvs \<noteq> [])"

fun type_name :: "pyval \<Rightarrow> string" where
  "type_name PNone = ''NoneType''"
| "type_name (PBool b) = ''bool''"
| "type_name (PInt i) = ''int''"
| "type_name (PStr s) = ''str''"
| "type_name (PList xs) = ''list''"
| "type_name (PDict kvs) = ''dict''"

fun py_repr :: "pyval \<Rightarrow> string" where
  "py_repr PNone = ''None''"
| "py_repr (PBool b) = (if b then ''True'' else ''False'')"
| "py_repr (PInt i) = str_int i"
| "py_repr (PStr s) = repr_str s"
| "py_repr (PList xs) = ''['' @ join '', '' (map py_repr xs) @ '']''"
| "py_repr (PDict kvs) =
     ''{'' @ join '', '' (map (\<lambda>kv. repr_str (fst kv) @ '': '' @ py_repr (snd kv)) kvs) @ ''}''"

fun py_str :: "pyval \<Rightarrow> string" where
  \<comment> \<open>\<open>str(v)\<close>, also what an f-string inserts\<close>
  "py_str (PStr s) = s"
| "py_str v = py_repr v"

fun decoded :: "pyval \<Rightarrow> bool" where
  \<comment> \<open>a value as the JSON decoder returns it: no integer of more than 4300 digits.
      On a longer integer \<open>str\<close> raises; such values are outside the model.\<close>
  "decoded (PInt i) = (length (dec_nat (nat \<bar>i\<bar>)) \<le> 4300)"
| "decoded (PList xs) = (\<forall>x\<in>set xs. decoded x)"
| "decoded (PDict kvs) = (\<forall>kv\<in>set kvs. decoded (snd kv))"
| "decoded v = True"

section \<open>Operations on values\<close>

definition quoted :: "string \<Rightarrow> string" where
  "quoted s = CHR 0x27 # s @ [CHR 0x27]"

definition get_key :: "(string \<times> pyval) list \<Rightarrow> string \<Rightarrow> pyval" where
  \<comment> \<open>\<open>d.get(key)\<close> on a dictionary: \<open>None\<close> when the key is absent\<close>
  "get_key d k = (case map_of d k of Some v \<Rightarrow> v | None \<Rightarrow> PNone)"

fun dict_get :: "pyval \<Rightarrow> string \<Rightarrow> pyval \<Rightarrow> exn + pyval" where
  \<comment> \<open>\<open>v.get(key, default)\<close> on any value: only a dictionary has the method\<close>
  "dict_get (PDict d) k dflt = Inr (case map_of d k of Some v \<Rightarrow> v | None \<Rightarrow> dflt)"
| "dict_get v k dflt =
     Inl (AttributeError (quoted (type_name v) @ '' object has no attribute '' @ quoted ''get''))"

fun first_truthy :: "pyval list \<Rightarrow> pyval" where
  \<comment> \<open>\<open>a or b or ... or z\<close>: the first truthy operand, else the last one\<close>
  "first_truthy [] = PNone"
| "first_truthy [v] = v"
| "first_truthy (v # w # vs) = (if py_truthy v then v else first_truthy (w # vs))"

definition list_items :: "pyval \<Rightarrow> pyval list" where
  \<comment> \<open>the items of \<open>v\<close> if \<open>isinstance(v, list)\<close>, nothing otherwise\<close>
  "list_items v = (case v of PList xs \<Rightarrow> xs | _ \<Rightarrow> [])"

definition int_isspace :: "char \<Rightarrow> bool" where
  \<comment> \<open>the whitespace \<open>int()\<close> skips around a number: not U+001C to U+001F\<close>
  "int_isspace c =
     (c \<in> set [CHR 0x09, CHR 0x0A, CHR 0x0B, CHR 0x0C, CHR 0x0D, CHR 0x20, CHR 0x85, CHR 0xA0])"

definition int_strip :: "string \<Rightarrow> string" where
  "int_strip s = rev (dropWhile int_isspace (rev (dropWhile int_isspace s)))"

definition max_str_digits :: nat where
  \<comment> \<open>the default of \<open>sys.get_int_max_str_digits()\<close>, CPython 3.11 and later\<close>
  "max_str_digits = 4300"

definition int_of_str :: "string \<Rightarrow> exn + int" where
  \<comment> \<open>\<open>int(s)\<close>: surrounding whitespace, one optional sign, decimal digits. The digits
      are scanned first; more than \<open>max_str_digits\<close> of them raise before anything that
      follows them is looked at.\<close>
  "int_of_str s =
     (let t = int_strip s;
          signed = (t \<noteq> [] \<and> (hd t = CHR ''-'' \<or> hd t = CHR ''+''));
          body = (if signed then tl t else t);
          scanned = takeWhile (\<lambda>c. is_decimal c \<or> c = CHR ''_'') body;
          rest = dropWhile (\<lambda>c. is_decimal c \<or> c = CHR ''_'') body;
          digits = length (filter is_decimal scanned)
      in if \<not> valid_digits scanned
         then Inl (ValueError (''invalid literal for int() with base 10: '' @ repr_str s))
         else if digits > max_str_digits
         then Inl (ValueError (''Exceeds the limit (4300 digits) for integer string conversion: value has ''
                               @ dec_nat digits
                               @ '' digits; use sys.set_int_max_str_digits() to increase the limit''))
         else if rest \<noteq> []
         then Inl (ValueError (''invalid literal for int() with base 10: '' @ repr_str s))
         else Inr (if signed \<and> hd t = CHR ''-'' then - int (dec_value scanned)
                   else int (dec_value scanned)))"

fun py_int :: "pyval \<Rightarrow> exn + int" where
  \<comment> \<open>\<open>int(v)\<close>\<close>
  "py_int (PInt i) = Inr i"
| "py_int (PBool b) = Inr (if b then 1 else 0)"
| "py_int (PStr s) = int_of_str s"
| "py_int v =
     Inl (TypeError (''int() argument must be a string, a bytes-like object or a real number, not ''
                     @ quoted (type_name v)))"

fun map_exn :: "('a \<Rightarrow> exn + 'b) \<Rightarrow> 'a list \<Rightarrow> exn + 'b list" where
  \<comment> \<open>a loop whose body may raise: the first exception ends it\<close>
  "map_exn f [] = Inr []"
| "map_exn f (x # xs) =
     (case f x of
        Inl e \<Rightarrow> Inl e
      | Inr y \<Rightarrow> (case map_exn f xs of Inl e \<Rightarrow> Inl e | Inr ys \<Rightarrow> Inr (y # ys)))"

definition sorted_by_key :: "('a \<Rightarrow> exn + int) \<Rightarrow> 'a list \<Rightarrow> exn + 'a list" where
  \<comment> \<open>\<open>sorted(xs, key=key)\<close>: the keys are computed first, then a stable sort\<close>
  "sorted_by_key key xs =
     (case map_exn key xs of
        Inl e \<Rightarrow> Inl e
      | Inr ks \<Rightarrow> Inr (map snd (sort_key fst (zip ks xs))))"

text \<open>
  The iteration order of a \<open>set\<close> of strings depends on the hashes, which change from
  one process to the next. It is a parameter: \<open>order xs\<close> ranks the elements inserted
  as \<open>xs\<close>, and the set is read in that ranking. Every ranking gives a permutation
  of the distinct elements, and every permutation comes from some ranking.
\<close>

type_synonym set_order = "string list \<Rightarrow> string \<Rightarrow> nat"

definition set_iter :: "set_order \<Rightarrow> string list \<Rightarrow> string list" where
  "set_iter order xs = sort_key (order xs) (remdups xs)"

definition class_sort_key :: "string \<Rightarrow> exn + int" where
  \<comment> \<open>\<open>lambda x: int(x) if x.isdigit() else 999\<close>\<close>
  "class_sort_key x = (if py_isdigit x then int_of_str x else Inr 999)"

definition class_key :: "string \<Rightarrow> int" where
  \<comment> \<open>the key of a code on which \<open>int\<close> does not raise\<close>
  "class_key x = (if py_isdigit x then int (dec_value x) else 999)"

section \<open>nice\_classes.py\<close>

definition NICE_CLASS_MAP :: "(string \<times> string) list" where
  "NICE_CLASS_MAP =
     [
      (''1'', ''Chemicals''),
      (''2'', ''Paints, varnishes & coatings''),
      (''3'', ''Cosmetics & cleaning preparations''),
      (''4'', ''Industrial oils, greases & fuels''),
      (''5'', ''Pharmaceuticals & medical preparations''),
      (''6'', ''Common metals & metal goods''),
      (''7'', ''Machines & machine tools''),
      (''8'', ''Hand tools''),
      (''9'', ''Scientific & electronic apparatus, software''),
      (''10'', ''Medical apparatus''),
      (''11'', ''Lighting, heating & cooling''),
      (''12'', ''Vehicles''),
      (''13'', ''Firearms''),
      (''14'', ''Jewellery, clocks & watches''),
      (''15'', ''Musical instruments''),
      (''16'', ''Paper goods & printed matter''),
      (''17'', ''Rubber, plastics & insulation materials''),
      (''18'', ''Leather goods & bags''),
      (''19'', ''Building materials''),
      (''20'', ''Furniture''),
      (''21'', ''Household utensils & glassware''),
      (''22'', ''Ropes, nets & sacks''),
      (''23'', ''Yarns & threads''),
      (''24'', ''Textiles & textile goods''),
      (''25'', ''Clothing, footwear & headgear''),
      (''26'', ''Lace, buttons & haberdashery''),
      (''27'', ''Floor coverings''),
      (''28'', ''Games, toys & sporting goods''),
      (''29'', ''Meat, fish & processed foods''),
      (''30'', ''Coffee, tea, flour & bakery goods''),
      (''31'', ''Agriculture & fresh foods''),
      (''32'', ''Beers & non-alcoholic beverages''),
      (''33'', ''Alcoholic beverages''),
      (''34'', ''Tobacco & smokers' articles''),
      (''35'', ''Advertising, business & retail services''),
      (''36'', ''Financial, insurance & real estate services''),
      (''37'', ''Construction & repair services''),
      (''38'', ''Telecommunications''),
      (''39'', ''Transport, packaging & travel services''),
      (''40'', ''Material treatment''),
      (''41'', ''Education, entertainment & sporting services''),
      (''42'', ''Scientific & technology services; software''),
      (''43'', ''Food, drink & accommodation services''),
      (''44'', ''Medical, beauty & agriculture services''),
      (''45'', ''Legal & security services'')
     ]"

definition label_nice_class :: "string \<Rightarrow> string" where
  "label_nice_class n =
     (let key = py_strip n
      in case map_of NICE_CLASS_MAP key of
           Some description \<Rightarrow> key @ '' ('' @ description @ '')''
         | None \<Rightarrow> key)"

section \<open>checkers.py: the result model\<close>

datatype AvailabilityStatus = Available | Taken | Unknown | Similar

record TrademarkMatch =
  tm_id :: pyval
  tm_words :: "string option"
  tm_status :: "string option"
  tm_classes :: "string list"
  tm_class_labels :: "string list"

definition TrademarkMatch_init ::
  "pyval \<Rightarrow> string option \<Rightarrow> string option \<Rightarrow> string list option \<Rightarrow> string list option
   \<Rightarrow> TrademarkMatch" where
  \<comment> \<open>the constructor: \<open>classes or []\<close>, \<open>class_labels or []\<close>\<close>
  "TrademarkMatch_init i words status classes class_labels =
     \<lparr>tm_id = i, tm_words = words, tm_status = status,
      tm_classes = (case classes of Some cs \<Rightarrow> cs | None \<Rightarrow> []),
      tm_class_labels = (case class_labels of Some ls \<Rightarrow> ls | None \<Rightarrow> [])\<rparr>"

record CheckResult =
  label :: string
  status :: AvailabilityStatus
  summary :: "string option"
  why_this_matters :: "string option"
  details :: "string option"
  exact_matches :: "TrademarkMatch list"
  similar_matches :: "TrademarkMatch list"

definition CheckResult_init ::
  "string \<Rightarrow> AvailabilityStatus \<Rightarrow> string option \<Rightarrow> string option \<Rightarrow> string option
   \<Rightarrow> TrademarkMatch list option \<Rightarrow> TrademarkMatch list option \<Rightarrow> CheckResult" where
  "CheckResult_init l st sm why det exact similar =
     \<lparr>label = l, status = st, summary = sm, why_this_matters = why, details = det,
      exact_matches = (case exact of Some ms \<Rightarrow> ms | None \<Rightarrow> []),
      similar_matches = (case similar of Some ms \<Rightarrow> ms | None \<Rightarrow> [])\<rparr>"

definition normalize_query :: "string \<Rightarrow> string" where
  "normalize_query name = sub_ws (py_strip name)"

section \<open>checkers.py: extract\_nice\_classes\<close>

definition candidates :: "(string \<times> pyval) list \<Rightarrow> pyval list" where
  "candidates tm =
     (let goods_and_services = get_key tm ''goodsAndServices''
      in list_items (get_key tm ''classes'')
         @ list_items (get_key tm ''niceClasses'')
         @ list_items (get_key tm ''classifications'')
         @ (case goods_and_services of
              PDict gs \<Rightarrow> list_items (get_key gs ''classes'') @ list_items (get_key gs ''niceClasses'')
            | _ \<Rightarrow> [])
         @ list_items goods_and_services
         @ list_items (get_key tm ''classificationList''))"

definition class_number :: "pyval \<Rightarrow> pyval" where
  "class_number c =
     (case c of
        PDict d \<Rightarrow>
          first_truthy [get_key d ''number'', get_key d ''classNumber'', get_key d ''niceClass'',
                        get_key d ''class'', get_key d ''classId'']
      | _ \<Rightarrow> c)"

fun numbers :: "pyval list \<Rightarrow> string list" where
  "numbers [] = []"
| "numbers (c # cs) =
     (let num = class_number c
      in if num \<noteq> PNone
         then (let num_str = py_strip (py_str num)
               in if num_str \<noteq> [] then num_str # numbers cs else numbers cs)
         else numbers cs)"

definition extract_nice_classes :: "set_order \<Rightarrow> pyval \<Rightarrow> exn + string list" where
  "extract_nice_classes order tm =
     (case tm of
        PDict d \<Rightarrow> sorted_by_key class_sort_key (set_iter order (numbers (candidates d)))
      | _ \<Rightarrow> Inl (AttributeError (quoted (type_name tm) @ '' object has no attribute ''
                                   @ quoted ''get'')))"

section \<open>The environment of a call\<close>

text \<open>
  What the code reads from outside and what it changes: the process environment
  (\<open>os.getenv\<close>), the clock (\<open>time.time() * 1000\<close>, in whole milliseconds), the HTTP
  exchanges of \<open>httpx\<close>, the module global \<open>_cached_token\<close>, and the requests issued so
  far. \<open>network\<close> answers a request with a response or with the exception the client
  raises (connection failure, timeout, invalid URL). \<open>module_names\<close> holds the
  module-level bindings that a free name of \<open>request_new_token\<close> resolves to; the module
  as written binds none of \<open>token_url\<close>, \<open>client_id\<close>, \<open>client_secret\<close>.
\<close>

record http_response =
  status_code :: int
  resp_text :: string
  resp_json :: "exn + pyval"

definition is_success :: "http_response \<Rightarrow> bool" where
  "is_success r = (200 \<le> status_code r \<and> status_code r \<le> 299)"

datatype http_body = NoBody | FormBody "(string \<times> string) list" | JsonBody pyval

record http_request =
  req_method :: string
  req_url :: string
  req_headers :: "(string \<times> string) list"
  req_body :: http_body

record token_entry =
  token :: pyval
  expiresAt :: int

record world =
  environ :: "string \<rightharpoonup> string"
  now_ms :: int
  module_names :: "string \<rightharpoonup> string"
  network :: "http_request \<Rightarrow> exn + http_response"
  hash_order :: set_order
  gather_pick :: "nat list \<Rightarrow> nat"
  cached_token :: "token_entry option"
  sent :: "http_request list"

definition unset :: "string option \<Rightarrow> bool" where
  \<comment> \<open>\<open>not v\<close> for the result of \<open>os.getenv\<close>: \<open>None\<close> or the empty string\<close>
  "unset v = (v = None \<or> v = Some [])"

definition getenv_default :: "world \<Rightarrow> string \<Rightarrow> string \<Rightarrow> string" where
  "getenv_default w k dflt = (case environ w k of Some v \<Rightarrow> v | None \<Rightarrow> dflt)"

definition name_error :: "string \<Rightarrow> exn" where
  "name_error n = NameError (''name '' @ quoted n @ '' is not defined'')"

section \<open>checkers.py: the token cache\<close>

definition token_request :: "string \<Rightarrow> string \<Rightarrow> string \<Rightarrow> http_request" where
  "token_request token_url client_id client_secret =
     \<lparr>req_method = ''POST'', req_url = token_url,
      req_headers = [(''Content-Type'', ''application/x-www-form-urlencoded''),
                     (''Accept'', ''application/json'')],
      req_body = FormBody [(''grant_type'', ''client_credentials''),
                           (''client_id'', client_id),
                           (''client_secret'', client_secret)]\<rparr>"

text \<open>
  \<open>request_new_token\<close> has no parameters and no \<open>global\<close> statement. Its names
  \<open>token_url\<close>, \<open>client_id\<close> and \<open>client_secret\<close> are therefore looked up in the module
  namespace when the call of \<open>client.post\<close> evaluates its arguments, and its assignment
  to \<open>_cached_token\<close> binds a local variable: the module global is not written.
\<close>

definition request_new_token :: "world \<Rightarrow> (exn + pyval) \<times> world" where
  "request_new_token w =
     (case module_names w ''token_url'' of
        None \<Rightarrow> (Inl (name_error ''token_url''), w)
      | Some token_url \<Rightarrow>
     (case module_names w ''client_id'' of
        None \<Rightarrow> (Inl (name_error ''client_id''), w)
      | Some client_id \<Rightarrow>
     (case module_names w ''client_secret'' of
        None \<Rightarrow> (Inl (name_error ''client_secret''), w)
      | Some client_secret \<Rightarrow>
     (let req = token_request token_url client_id client_secret;
          w' = w\<lparr>sent := sent w @ [req]\<rparr>
      in case network w req of
           Inl e \<Rightarrow> (Inl e, w')
         | Inr response \<Rightarrow>
             if \<not> is_success response
             then (Inl (PlainException (''Token request failed '' @ str_int (status_code response)
                                        @ '': '' @ take 250 (resp_text response))), w')
             else
            (case resp_json response of
               Inl e \<Rightarrow> (Inl e, w')
             | Inr data \<Rightarrow>
            (case dict_get data ''access_token'' PNone of
               Inl e \<Rightarrow> (Inl e, w')
             | Inr access_token \<Rightarrow>
            (case dict_get data ''expires_in'' (PInt 3600) of
               Inl e \<Rightarrow> (Inl e, w')
             | Inr expires_in_value \<Rightarrow>
            (case py_int expires_in_value of
               Inl e \<Rightarrow> (Inl e, w')
             | Inr expires_in \<Rightarrow>
                 if \<not> py_truthy access_token
                 then (Inl (PlainException (''Token response missing access_token: ''
                                            @ take 250 (resp_text response))), w')
                 else
                   (let local_cached_token =
                          \<lparr>token = access_token,
                           expiresAt = now_ms w + (expires_in - 60) * 1000\<rparr>
                    in (Inr access_token, w'))))))))))"

definition get_ipau_access_token :: "world \<Rightarrow> (exn + pyval) \<times> world" where
  "get_ipau_access_token w =
     (let env = getenv_default w ''IPAU_ENV'' ''test'';
          token_url = (if env = ''production'' then environ w ''IPAU_TOKEN_URL_PROD''
                       else environ w ''IPAU_TOKEN_URL_TEST'');
          client_id = environ w ''IPAU_CLIENT_ID'';
          client_secret = environ w ''IPAU_CLIENT_SECRET''
      in if unset token_url
         then (Inl (ValueError ''Missing IPAU_TOKEN_URL_TEST/PROD in environment''), w)
         else if unset client_id
         then (Inl (ValueError ''Missing IPAU_CLIENT_ID in environment''), w)
         else if unset client_secret
         then (Inl (ValueError ''Missing IPAU_CLIENT_SECRET in environment''), w)
         else (case cached_token w of
                 Some c \<Rightarrow>
                   if now_ms w < expiresAt c then (Inr (token c), w)
                   else request_new_token w
               | None \<Rightarrow> request_new_token w))"

section \<open>checkers.py: fetch\_trademark\_details\<close>

datatype detail_result =
    DetailError pyval string
  | DetailData pyval pyval

fun detail_id :: "detail_result \<Rightarrow> pyval" where
  \<comment> \<open>\<open>d["id"]\<close>\<close>
  "detail_id (DetailError i err) = i"
| "detail_id (DetailData i data) = i"

definition detail_request :: "pyval \<Rightarrow> pyval \<Rightarrow> string \<Rightarrow> http_request" where
  "detail_request i tok base_url =
     \<lparr>req_method = ''GET'',
      req_url = py_rstrip_char (CHR ''/'') base_url @ ''/trade-mark/'' @ py_str i,
      req_headers = [(''Authorization'', ''Bearer '' @ py_str tok),
                     (''Accept'', ''application/json'')],
      req_body = NoBody\<rparr>"

definition fetch_trademark_details ::
  "world \<Rightarrow> pyval \<Rightarrow> pyval \<Rightarrow> string \<Rightarrow> exn + detail_result" where
  "fetch_trademark_details w i tok base_url =
     (case network w (detail_request i tok base_url) of
        Inl e \<Rightarrow> Inl e
      | Inr response \<Rightarrow>
          if \<not> is_success response
          then Inr (DetailError i (''Detail fetch failed '' @ str_int (status_code response)
                                   @ '': '' @ take 120 (resp_text response)))
          else (case resp_json response of
                  Inr data \<Rightarrow> Inr (DetailData i data)
                | Inl e \<Rightarrow>
                    if is_exception e
                    then Inr (DetailError i (''Detail fetch returned non-JSON: ''
                                             @ take 120 (resp_text response)))
                    else Inl e))"

text \<open>
  \<open>asyncio.gather\<close> without \<open>return_exceptions\<close>: the results in the order of the
  arguments, or the exception of the coroutine that fails first in time. Which one that is
  belongs to the scheduling; \<open>pick\<close> chooses it among the failed positions.
\<close>

definition gather :: "(nat list \<Rightarrow> nat) \<Rightarrow> (exn + 'a) list \<Rightarrow> exn + 'a list" where
  "gather pick rs =
     (let failed = filter (\<lambda>i. isl (rs ! i)) [0..<length rs]
      in if failed = [] then Inr (map projr rs)
         else (let i = pick failed; j = (if i \<in> set failed then i else hd failed)
               in Inl (projl (rs ! j))))"

section \<open>checkers.py: check\_ip\_australia\_trademark\<close>

definition search_request :: "string \<Rightarrow> pyval \<Rightarrow> string \<Rightarrow> http_request" where
  "search_request search_url tok q =
     \<lparr>req_method = ''POST'', req_url = search_url,
      req_headers = [(''Authorization'', ''Bearer '' @ py_str tok),
                     (''Content-Type'', ''application/json''),
                     (''Accept'', ''application/json'')],
      req_body = JsonBody (PDict
        [(''query'', PStr q),
         (''sort'', PDict [(''field'', PStr ''NUMBER''), (''direction'', PStr ''ASCENDING'')]),
         (''filters'', PDict [(''quickSearchType'', PList [PStr ''WORD'']),
                              (''status'', PList [PStr ''REGISTERED''])])])\<rparr>"

fun class_strings :: "pyval list \<Rightarrow> exn + string list" where
  \<comment> \<open>the loop over \<open>goodsAndServices\<close>: the strings added to \<open>classes_set\<close>, in order\<close>
  "class_strings [] = Inr []"
| "class_strings (gs # rest) =
     (case dict_get gs ''class'' PNone of
        Inl e \<Rightarrow> Inl e
      | Inr cls \<Rightarrow>
          (case class_strings rest of
             Inl e \<Rightarrow> Inl e
           | Inr added \<Rightarrow> Inr (if py_truthy cls then py_str cls # added else added)))"

definition record_words :: "(string \<times> pyval) list \<Rightarrow> pyval" where
  \<comment> \<open>"words/name fields vary"\<close>
  "record_words t =
     first_truthy [get_key t ''words'', get_key t ''tradeMarkWords'', get_key t ''markText'',
                   get_key t ''text'', get_key t ''name'', get_key t ''tradeMarkName'',
                   PStr []]"

definition record_status :: "(string \<times> pyval) list \<Rightarrow> pyval" where
  \<comment> \<open>"status fields vary"\<close>
  "record_status t =
     first_truthy [get_key t ''statusGroup'', get_key t ''statusCode'',
                   get_key t ''statusDetail'', get_key t ''status'',
                   get_key t ''tradeMarkStatus'', get_key t ''state'',
                   get_key t ''ipRightStatus'', PStr []]"

definition parse_detail :: "set_order \<Rightarrow> detail_result \<Rightarrow> exn + TrademarkMatch" where
  \<comment> \<open>the body of the loop over \<open>detail_results\<close>\<close>
  "parse_detail order d =
     (case d of
        DetailError i err \<Rightarrow> Inr (TrademarkMatch_init i (Some []) (Some []) (Some []) (Some []))
      | DetailData i tm \<Rightarrow>
          (case tm of
             PDict t \<Rightarrow>
               (let words = record_words t;
                    status_value = record_status t;
                    goods_and_services = get_key t ''goodsAndServices''
                in case class_strings (list_items goods_and_services) of
                     Inl e \<Rightarrow> Inl e
                   | Inr added \<Rightarrow>
                       (case sorted_by_key class_sort_key (set_iter order added) of
                          Inl e \<Rightarrow> Inl e
                        | Inr classes \<Rightarrow>
                            (let class_labels = map label_nice_class classes
                             in Inr (TrademarkMatch_init i (Some (py_str words))
                                       (Some (py_str status_value)) (Some classes)
                                       (Some class_labels)))))
           | _ \<Rightarrow> Inl (AttributeError (quoted (type_name tm) @ '' object has no attribute ''
                                        @ quoted ''get''))))"

definition words_truthy :: "TrademarkMatch \<Rightarrow> bool" where
  \<comment> \<open>\<open>p.words\<close> as a condition\<close>
  "words_truthy p = (case tm_words p of Some ws \<Rightarrow> ws \<noteq> [] | None \<Rightarrow> False)"

definition words_lower :: "TrademarkMatch \<Rightarrow> string" where
  \<comment> \<open>\<open>p.words.lower()\<close>, evaluated only where \<open>p.words\<close> is truthy\<close>
  "words_lower p = (case tm_words p of Some ws \<Rightarrow> py_lower ws | None \<Rightarrow> [])"

definition match_words :: "TrademarkMatch \<Rightarrow> string" where
  \<comment> \<open>the words of a match, an absent value read as the empty text\<close>
  "match_words p = (case tm_words p of Some ws \<Rightarrow> ws | None \<Rightarrow> [])"

definition copy_match :: "TrademarkMatch \<Rightarrow> TrademarkMatch" where
  "copy_match p =
     TrademarkMatch_init (tm_id p) (tm_words p) (tm_status p) (Some (tm_classes p))
       (Some (tm_class_labels p))"

fun str_items :: "nat \<Rightarrow> pyval list \<Rightarrow> exn + string list" where
  "str_items n [] = Inr []"
| "str_items n (PStr s # vs) =
     (case str_items (Suc n) vs of Inl e \<Rightarrow> Inl e | Inr ss \<Rightarrow> Inr (s # ss))"
| "str_items n (v # vs) =
     Inl (TypeError (''sequence item '' @ dec_nat n @ '': expected str instance, ''
                     @ type_name v @ '' found''))"

definition py_join :: "string \<Rightarrow> pyval list \<Rightarrow> exn + string" where
  \<comment> \<open>\<open>sep.join(vs)\<close>: every item must be a string\<close>
  "py_join sep vs = (case str_items 0 vs of Inl e \<Rightarrow> Inl e | Inr ss \<Rightarrow> Inr (join sep ss))"

definition bare_match :: "pyval \<Rightarrow> TrademarkMatch" where
  \<comment> \<open>\<open>TrademarkMatch(id=id)\<close>\<close>
  "bare_match i = TrademarkMatch_init i None None None None"

definition build_result ::
  "string \<Rightarrow> int \<Rightarrow> pyval list \<Rightarrow> pyval list \<Rightarrow> TrademarkMatch list \<Rightarrow> exn + CheckResult" where
  \<comment> \<open>from "Split into exact vs similar" to the end of the \<open>try\<close> block\<close>
  "build_result q count trademark_ids top_ids parsed =
     (let q_lower = py_lower q;
          exact = map copy_match
                    (filter (\<lambda>p. words_truthy p \<and> words_lower p = q_lower) parsed);
          similar = map copy_match
                      (filter (\<lambda>p. words_truthy p \<and> words_lower p \<noteq> q_lower) parsed);
          any_parsed = (length exact + length similar > 0)
      in if \<not> any_parsed
         then (case py_join '', '' (take 5 trademark_ids) of
                 Inl e \<Rightarrow> Inl e
               | Inr id_text \<Rightarrow>
                   Inr (CheckResult_init ''Trademark (IP Australia)'' Similar
                     (Some ''Registered trademarks exist with this name or something similar.'')
                     (Some ''Even if names aren't identical, similar marks in related categories can increase legal and branding risk.'')
                     (Some (''Found '' @ str_int count @ '' registered match(es). IDs: '' @ id_text))
                     None
                     (Some (map bare_match (take 5 trademark_ids)))))
         else (let is_taken = (length exact > 0)
               in Inr (CheckResult_init ''Trademark (IP Australia)''
                    (if is_taken then Taken else Similar)
                    (Some (if is_taken
                           then ''An identical registered trademark exists in Australia.''
                           else ''Similar registered trademarks exist in Australia.''))
                    (Some (if is_taken
                           then ''Using the same name can create a high risk of trademark conflict, especially in related industries.''
                           else ''Even if names aren't identical, similar marks in related categories can still cause legal and branding risk.''))
                    (Some (''Found '' @ str_int count @ '' registered match(es). Showing the top ''
                           @ str_int (int (length top_ids)) @ ''.''))
                    (Some exact)
                    (Some similar))))"

definition no_results :: CheckResult where
  "no_results =
     CheckResult_init ''Trademark (IP Australia)'' Available
       (Some ''No registered word trademarks were found in Australia.'')
       (Some ''This lowers risk, but it's not a guarantee. Similar marks, pending applications, or other rights may still exist.'')
       (Some ''0 registered results returned by IP Australia quick search.'')
       None None"

definition parse_quick_search :: "pyval \<Rightarrow> exn + int \<times> pyval list" where
  \<comment> \<open>"2) Parse quick search result": \<open>count\<close> and \<open>trademark_ids\<close>\<close>
  "parse_quick_search data =
     (case dict_get data ''count'' (PInt 0) of
        Inl e \<Rightarrow> Inl e
      | Inr count_value \<Rightarrow>
     (case py_int count_value of
        Inl e \<Rightarrow> Inl e
      | Inr count \<Rightarrow>
     (case dict_get data ''trademarkIds'' (PList []) of
        Inl e \<Rightarrow> Inl e
      | Inr ids_value \<Rightarrow> Inr (count, list_items ids_value))))"

definition fetch_details ::
  "world \<Rightarrow> pyval list \<Rightarrow> pyval \<Rightarrow> string \<Rightarrow> (exn + detail_result list) \<times> world" where
  \<comment> \<open>"3) Fetch details for top IDs": every coroutine issues its request\<close>
  "fetch_details w top_ids tok base_url =
     (gather (gather_pick w) (map (\<lambda>i. fetch_trademark_details w i tok base_url) top_ids),
      w\<lparr>sent := sent w @ map (\<lambda>i. detail_request i tok base_url) top_ids\<rparr>)"

definition after_search ::
  "world \<Rightarrow> string \<Rightarrow> pyval \<Rightarrow> string \<Rightarrow> pyval \<Rightarrow> (exn + CheckResult) \<times> world" where
  \<comment> \<open>from "2) Parse quick search result" to the end of the \<open>try\<close> block\<close>
  "after_search w q tok base_url data =
     (case parse_quick_search data of
        Inl e \<Rightarrow> (Inl e, w)
      | Inr (count, trademark_ids) \<Rightarrow>
          if count = 0 \<or> length trademark_ids = 0 then (Inr no_results, w)
          else
           (let top_ids = take 5 trademark_ids
            in case fetch_details w top_ids tok base_url of
                 (Inl e, w') \<Rightarrow> (Inl e, w')
               | (Inr detail_results, w') \<Rightarrow>
                   (case map_exn (parse_detail (hash_order w')) detail_results of
                      Inl e \<Rightarrow> (Inl e, w')
                    | Inr parsed \<Rightarrow>
                        (build_result q count trademark_ids top_ids parsed, w'))))"

definition quick_search ::
  "world \<Rightarrow> string \<Rightarrow> pyval \<Rightarrow> string \<Rightarrow> (exn + http_response) \<times> world" where
  \<comment> \<open>"1) Quick search": the POST to \<open><base_url>/search/quick\<close>\<close>
  "quick_search w q tok base_url =
     (let req = search_request (py_rstrip_char (CHR ''/'') base_url @ ''/search/quick'') tok q
      in (network w req, w\<lparr>sent := sent w @ [req]\<rparr>))"

definition search_failed :: "http_response \<Rightarrow> CheckResult" where
  "search_failed response =
     CheckResult_init ''Trademark (IP Australia)'' Unknown
       (Some ''We couldn't complete the trademark check right now.'')
       (Some ''Trademark results help you avoid choosing a name that could conflict with an existing brand.'')
       (Some (''IP Australia error '' @ str_int (status_code response) @ '': ''
              @ take 250 (resp_text response)))
       None None"

definition try_body :: "world \<Rightarrow> string \<Rightarrow> string \<Rightarrow> (exn + CheckResult) \<times> world" where
  \<comment> \<open>the \<open>try\<close> block\<close>
  "try_body w q base_url =
     (case get_ipau_access_token w of
        (Inl e, w1) \<Rightarrow> (Inl e, w1)
      | (Inr tok, w1) \<Rightarrow>
          (case quick_search w1 q tok base_url of
             (Inl e, w2) \<Rightarrow> (Inl e, w2)
           | (Inr response, w2) \<Rightarrow>
               if \<not> is_success response then (Inr (search_failed response), w2)
               else (case resp_json response of
                       Inl e \<Rightarrow> (Inl e, w2)
                     | Inr data \<Rightarrow> after_search w2 q tok base_url data)))"

definition tm_base_url :: "world \<Rightarrow> string option" where
  \<comment> \<open>\<open>env\<close> and \<open>base_url\<close> at the start of the function\<close>
  "tm_base_url w =
     (let env = getenv_default w ''IPAU_ENV'' ''test''
      in if env = ''production'' then environ w ''IPAU_TM_BASE_URL_PROD''
         else environ w ''IPAU_TM_BASE_URL_TEST'')"

definition missing_base_url :: CheckResult where
  "missing_base_url =
     CheckResult_init ''Trademark (IP Australia)'' Unknown
       (Some ''We couldn't run the trademark check right now.'')
       (Some ''Trademark results help you avoid picking a name that could conflict with an existing brand.'')
       (Some ''Missing IPAU_TM_BASE_URL_TEST/PROD in environment'')
       None None"

definition request_failed :: "exn \<Rightarrow> CheckResult" where
  \<comment> \<open>the handler of \<open>except Exception as err\<close>\<close>
  "request_failed err =
     CheckResult_init ''Trademark (IP Australia)'' Unknown
       (Some ''We couldn't run the trademark check right now.'')
       (Some ''Trademark results help you avoid choosing a name that could conflict with an existing brand.'')
       (Some (''Request failed: '' @ exn_str err))
       None None"

definition check_ip_australia_trademark ::
  "world \<Rightarrow> string \<Rightarrow> (exn + CheckResult) \<times> world" where
  "check_ip_australia_trademark w name =
     (let q = normalize_query name;
          base_url = tm_base_url w
      in if unset base_url then (Inr missing_base_url, w)
         else (case try_body w q (the base_url) of
                 (Inr r, w') \<Rightarrow> (Inr r, w')
               | (Inl err, w') \<Rightarrow>
                   if is_exception err then (Inr (request_failed err), w')
                   else (Inl err, w')))"

section \<open>Concrete scenarios\<close>

text \<open>
  A registry that answers by URL, used to run the definitions on concrete inputs. Under
  \<open>tm.example\<close> a search finds three marks, of which the third has no detail page; under
  \<open>none.example\<close> it finds nothing; under \<open>bare.example\<close> it finds two marks without
  detail pages; under \<open>flaky.example\<close> the connection drops during the second detail
  fetch. An URL that is not listed answers 404.
\<close>

definition ok_json :: "pyval \<Rightarrow> exn + http_response" where
  "ok_json v = Inr \<lparr>status_code = 200, resp_text = ''{...}'', resp_json = Inr v\<rparr>"

definition not_found :: "exn + http_response" where
  "not_found =
     Inr \<lparr>status_code = 404, resp_text = ''Not Found'',
          resp_json = Inl (JSONDecodeError ''Expecting value: line 1 column 1 (char 0)'')\<rparr>"

definition acme_record :: pyval where
  "acme_record =
     PDict [(''words'', PStr ''ACME Brew''), (''statusGroup'', PStr ''REGISTERED''),
            (''goodsAndServices'',
             PList [PDict [(''class'', PStr ''35'')], PDict [(''class'', PStr ''9'')]])]"

definition spaced_record :: pyval where
  "spaced_record =
     PDict [(''markText'', PStr ''Acme  Brew''),
            (''goodsAndServices'', PList [PDict [(''class'', PInt 42)]])]"

definition registry_table :: "(string \<times> (exn + http_response)) list" where
  "registry_table =
     [(''https://auth.example/token'',
       ok_json (PDict [(''access_token'', PStr ''NEW''), (''expires_in'', PInt 3600)])),
      (''https://tm.example/search/quick'',
       ok_json (PDict [(''count'', PInt 3),
                       (''trademarkIds'', PList [PStr ''100'', PStr ''200'', PStr ''300''])])),
      (''https://tm.example/trade-mark/100'', ok_json acme_record),
      (''https://tm.example/trade-mark/200'', ok_json spaced_record),
      (''https://none.example/search/quick'',
       ok_json (PDict [(''count'', PInt 0), (''trademarkIds'', PList [])])),
      (''https://bare.example/search/quick'',
       ok_json (PDict [(''count'', PInt 2),
                       (''trademarkIds'', PList [PStr ''700'', PStr ''800''])])),
      (''https://flaky.example/search/quick'',
       ok_json (PDict [(''count'', PInt 2),
                       (''trademarkIds'', PList [PStr ''100'', PStr ''200''])])),
      (''https://flaky.example/trade-mark/100'', ok_json acme_record),
      (''https://flaky.example/trade-mark/200'', Inl (TransportError ''All connection attempts failed''))]"

definition registry :: "http_request \<Rightarrow> exn + http_response" where
  "registry req =
     (case map_of registry_table (req_url req) of Some r \<Rightarrow> r | None \<Rightarrow> not_found)"

definition insertion_order :: set_order where
  "insertion_order xs s = 0"

definition first_failed :: "nat list \<Rightarrow> nat" where
  "first_failed failed = hd failed"

definition fresh_world :: "string \<Rightarrow> world" where
  \<comment> \<open>a configured process that has not cached a token yet\<close>
  "fresh_world base_url =
     \<lparr>environ = map_of [(''IPAU_TM_BASE_URL_TEST'', base_url),
                        (''IPAU_TOKEN_URL_TEST'', ''https://auth.example/token''),
                        (''IPAU_CLIENT_ID'', ''client''),
                        (''IPAU_CLIENT_SECRET'', ''secret'')],
      now_ms = 1700000000000,
      module_names = Map.empty,
      network = registry,
      hash_order = insertion_order,
      gather_pick = first_failed,
      cached_token = None,
      sent = []\<rparr>"

definition primed_world :: "string \<Rightarrow> world" where
  \<comment> \<open>the same process with a valid token placed in \<open>_cached_token\<close>\<close>
  "primed_world base_url =
     (fresh_world base_url)
       \<lparr>cached_token := Some \<lparr>token = PStr ''T'', expiresAt = 1700000600000\<rparr>\<rparr>"

definition unconfigured_world :: world where
  "unconfigured_world = (fresh_world [])\<lparr>environ := Map.empty\<rparr>"

definition bound_world :: "string \<Rightarrow> world" where
  \<comment> \<open>a process in which the three names of \<open>request_new_token\<close> are bound at module level\<close>
  "bound_world base_url =
     (fresh_world base_url)
       \<lparr>module_names := map_of [(''token_url'', ''https://auth.example/token''),
                                (''client_id'', ''client''),
                                (''client_secret'', ''secret'')]\<rparr>"

definition acme_match :: TrademarkMatch where
  "acme_match =
     \<lparr>tm_id = PStr ''100'', tm_words = Some ''ACME Brew'', tm_status = Some ''REGISTERED'',
      tm_classes = [''9'', ''35''],
      tm_class_labels = [''9 (Scientific & electronic apparatus, software)'',
                         ''35 (Advertising, business & retail services)'']\<rparr>"

definition spaced_match :: TrademarkMatch where
  "spaced_match =
     \<lparr>tm_id = PStr ''200'', tm_words = Some ''Acme  Brew'', tm_status = Some [],
      tm_classes = [''42''],
      tm_class_labels = [''42 (Scientific & technology services; software)'']\<rparr>"

definition empty_match :: "string \<Rightarrow> TrademarkMatch" where
  "empty_match i =
     \<lparr>tm_id = PStr i, tm_words = Some [], tm_status = Some [], tm_classes = [],
      tm_class_labels = []\<rparr>"

definition acme_result :: CheckResult where
  "acme_result =
     \<lparr>label = ''Trademark (IP Australia)'', status = Taken,
      summary = Some ''An identical registered trademark exists in Australia.'',
      why_this_matters = Some ''Using the same name can create a high risk of trademark conflict, especially in related industries.'',
      details = Some ''Found 3 registered match(es). Showing the top 3.'',
      exact_matches = [acme_match], similar_matches = [spaced_match]\<rparr>"

definition searched_world :: "string \<Rightarrow> string \<Rightarrow> world" where
  \<comment> \<open>\<open>primed_world\<close> after the quick search for \<open>q\<close>\<close>
  "searched_world base_url q =
     (primed_world base_url)
       \<lparr>sent := [search_request (base_url @ ''/search/quick'') (PStr ''T'') q]\<rparr>"

definition fetched_world :: "string \<Rightarrow> string \<Rightarrow> pyval list \<Rightarrow> world" where
  \<comment> \<open>\<open>searched_world\<close> after the detail fetches for \<open>ids\<close>\<close>
  "fetched_world base_url q ids =
     (primed_world base_url)
       \<lparr>sent := search_request (base_url @ ''/search/quick'') (PStr ''T'') q
                 # map (\<lambda>i. detail_request i (PStr ''T'') base_url) ids\<rparr>"

definition tm_ids :: "pyval list" where
  "tm_ids = [PStr ''100'', PStr ''200'', PStr ''300'']"

definition tm_details :: "detail_result list" where
  "tm_details =
     [DetailData (PStr ''100'') acme_record,
      DetailData (PStr ''200'') spaced_record,
      DetailError (PStr ''300'') ''Detail fetch failed 404: Not Found'']"



text \<open>Raw records for \<open>extract_nice_classes\<close>, in the shapes it scans.\<close>

definition direct_record :: "(string \<times> pyval) list" where
  "direct_record = [(''classes'', PList [PStr ''35'', PStr ''9'', PStr ''35'', PStr ''7''])]"

definition nested_record :: "(string \<times> pyval) list" where
  "nested_record =
     [(''goodsAndServices'',
       PDict [(''niceClasses'', PList [PInt 35, PInt 9, PInt 35, PInt 7])])]"

definition items_record :: "(string \<times> pyval) list" where
  "items_record =
     [(''goodsAndServices'',
       PList [PDict [(''class'', PStr ''35'')], PDict [(''classNumber'', PStr '' 9 '')],
              PDict [(''number'', PInt 35)], PDict [(''classId'', PStr ''7'')]])]"

definition mixed_record :: "(string \<times> pyval) list" where
  "mixed_record = [(''classifications'', PList [PStr ''35'', PStr ''abc'', PStr ''7''])]"

definition malformed_record :: "(string \<times> pyval) list" where
  "malformed_record =
     [(''classes'', PStr ''35''), (''niceClasses'', PNone), (''goodsAndServices'', PInt 3),
      (''classificationList'', PDict [(''number'', PInt 9)])]"

definition large_record :: "(string \<times> pyval) list" where
  "large_record = [(''classes'', PList [PStr ''1000'', PStr ''abc''])]"

definition superscript_record :: "(string \<times> pyval) list" where
  "superscript_record = [(''classes'', PList [PStr [CHR 0xB2]])]"

definition long_record :: "(string \<times> pyval) list" where
  "long_record = [(''classes'', PList [PStr (replicate 4301 (CHR ''9''))])]"



section \<open>Basic facts\<close>

lemma unset_simps: "unset None" "unset (Some s) = (s = [])"
  by (simp_all add: unset_def)

lemma missing_base_url_fields:
  "status missing_base_url = Unknown"
  "details missing_base_url = Some ''Missing IPAU_TM_BASE_URL_TEST/PROD in environment''"
  "exact_matches missing_base_url = []"
  "similar_matches missing_base_url = []"
  by (simp_all add: missing_base_url_def CheckResult_init_def)

lemma no_results_fields:
  "status no_results = Available"
  "summary no_results = Some ''No registered word trademarks were found in Australia.''"
  "details no_results = Some ''0 registered results returned by IP Australia quick search.''"
  "exact_matches no_results = []"
  "similar_matches no_results = []"
  by (simp_all add: no_results_def CheckResult_init_def)

subsection \<open>The scenarios\<close>

lemma env_fresh:
  "environ (fresh_world b) ''IPAU_ENV'' = None"
  "environ (fresh_world b) ''IPAU_TM_BASE_URL_TEST'' = Some b"
  "environ (fresh_world b) ''IPAU_TOKEN_URL_TEST'' = Some ''https://auth.example/token''"
  "environ (fresh_world b) ''IPAU_CLIENT_ID'' = Some ''client''"
  "environ (fresh_world b) ''IPAU_CLIENT_SECRET'' = Some ''secret''"
  by (simp_all add: fresh_world_def)

lemma fresh_fields:
  "now_ms (fresh_world b) = 1700000000000"
  "module_names (fresh_world b) = Map.empty"
  "network (fresh_world b) = registry"
  "hash_order (fresh_world b) = insertion_order"
  "gather_pick (fresh_world b) = first_failed"
  "cached_token (fresh_world b) = None"
  "sent (fresh_world b) = []"
  by (simp_all add: fresh_world_def)

lemma primed_fields:
  "environ (primed_world b) = environ (fresh_world b)"
  "now_ms (primed_world b) = 1700000000000"
  "network (primed_world b) = registry"
  "hash_order (primed_world b) = insertion_order"
  "gather_pick (primed_world b) = first_failed"
  "cached_token (primed_world b) = Some \<lparr>token = PStr ''T'', expiresAt = 1700000600000\<rparr>"
  "sent (primed_world b) = []"
  by (simp_all add: primed_world_def fresh_world_def)

lemma tm_base_url_unconfigured: "tm_base_url unconfigured_world = None"
  by (simp add: tm_base_url_def unconfigured_world_def getenv_default_def)


lemma tm_base_url_primed: "tm_base_url (primed_world b) = Some b"
  by (simp add: tm_base_url_def getenv_default_def env_fresh primed_fields)

lemma token_primed:
  "get_ipau_access_token (primed_world b) = (Inr (PStr ''T''), primed_world b)"
  by (simp add: get_ipau_access_token_def getenv_default_def primed_fields env_fresh
      unset_simps)

lemma normalize_acme: "normalize_query ''  acme   brew '' = ''acme brew''"
  by (simp add: normalize_query_def py_strip_def py_lstrip_def py_rstrip_def py_isspace_def
      whitespace_chars_def)

section \<open>The base URL is not configured\<close>

text \<open>
  C7. If the trademark base URL of the selected environment is unset (absent or empty),
  \<open>check_ip_australia_trademark\<close> returns a result, with status \<open>unknown\<close> and details
  naming the missing setting, and leaves the world as it was: no request is sent, neither
  for a token nor for a search.
\<close>

theorem missing_base_url_gives_unknown:
  assumes "unset (tm_base_url w)"
  shows "check_ip_australia_trademark w name = (Inr missing_base_url, w)
         \<and> sent (snd (check_ip_australia_trademark w name)) = sent w
         \<and> status missing_base_url = Unknown
         \<and> details missing_base_url = Some ''Missing IPAU_TM_BASE_URL_TEST/PROD in environment''"
  using assms by (simp add: check_ip_australia_trademark_def missing_base_url_fields)

theorem missing_base_url_gives_unknown_witness:
  "unset (tm_base_url unconfigured_world)
   \<and> check_ip_australia_trademark unconfigured_world ''Acme Brew''
       = (Inr missing_base_url, unconfigured_world)
   \<and> sent (snd (check_ip_australia_trademark unconfigured_world ''Acme Brew'')) = []"
proof -
  have h: "unset (tm_base_url unconfigured_world)"
    by (simp add: tm_base_url_unconfigured unset_simps)
  have s: "sent unconfigured_world = []"
    by (simp add: unconfigured_world_def fresh_world_def)
  from missing_base_url_gives_unknown [OF h, of "''Acme Brew''"] h s show ?thesis by simp
qed

section \<open>A search without results\<close>

text \<open>
  C6. When the quick search answers with a success status and a JSON document from which
  \<open>count\<close> and \<open>trademarkIds\<close> are read (an absent \<open>count\<close> is 0; \<open>trademarkIds\<close> that is
  absent or not a list is the empty list), and \<open>count\<close> is 0 or the list is empty, the
  checker returns the fixed result \<open>no_results\<close>: status \<open>available\<close>, no exact and no
  similar matches, the fixed summary and the details reporting zero results. The world
  it returns is the one right after the search request: no detail fetch is issued.
\<close>

theorem zero_results_give_available:
  assumes base: "tm_base_url w = Some base_url" "base_url \<noteq> []"
    and tok: "get_ipau_access_token w = (Inr tok, w1)"
    and search: "quick_search w1 (normalize_query name) tok base_url = (Inr response, w2)"
    and resp: "is_success response" "resp_json response = Inr data"
    and parse: "parse_quick_search data = Inr (count, trademark_ids)"
    and zero: "count = 0 \<or> trademark_ids = []"
  shows "check_ip_australia_trademark w name = (Inr no_results, w2)
         \<and> sent w2 = sent w1 @ [search_request
               (py_rstrip_char (CHR ''/'') base_url @ ''/search/quick'') tok (normalize_query name)]
         \<and> status no_results = Available
         \<and> exact_matches no_results = [] \<and> similar_matches no_results = []
         \<and> summary no_results = Some ''No registered word trademarks were found in Australia.''
         \<and> details no_results
             = Some ''0 registered results returned by IP Australia quick search.''"
proof -
  have "after_search w2 (normalize_query name) tok base_url data = (Inr no_results, w2)"
    using parse zero by (auto simp: after_search_def)
  then have "try_body w (normalize_query name) base_url = (Inr no_results, w2)"
    using tok search resp by (simp add: try_body_def)
  then have "check_ip_australia_trademark w name = (Inr no_results, w2)"
    using base by (simp add: check_ip_australia_trademark_def unset_simps)
  moreover have "sent w2 = sent w1 @ [search_request
      (py_rstrip_char (CHR ''/'') base_url @ ''/search/quick'') tok (normalize_query name)]"
    using search by (auto simp: quick_search_def Let_def)
  ultimately show ?thesis by (simp add: no_results_fields)
qed

lemma rstrip_slash_none:
  "py_rstrip_char (CHR ''/'') ''https://none.example'' = ''https://none.example''"
  by (simp add: py_rstrip_char_def)

lemma search_none:
  "quick_search (primed_world ''https://none.example'') ''acme brew'' (PStr ''T'')
     ''https://none.example''
   = (ok_json (PDict [(''count'', PInt 0), (''trademarkIds'', PList [])]),
      (primed_world ''https://none.example'')
        \<lparr>sent := [search_request ''https://none.example/search/quick'' (PStr ''T'')
                     ''acme brew'']\<rparr>)"
  by (simp add: quick_search_def rstrip_slash_none primed_fields registry_def registry_table_def
      search_request_def)

lemma parse_none:
  "parse_quick_search (PDict [(''count'', PInt 0), (''trademarkIds'', PList [])]) = Inr (0, [])"
  by (simp add: parse_quick_search_def list_items_def)

theorem zero_results_give_available_witness:
  "check_ip_australia_trademark (primed_world ''https://none.example'') ''  acme   brew ''
   = (Inr no_results,
      (primed_world ''https://none.example'')
        \<lparr>sent := [search_request ''https://none.example/search/quick'' (PStr ''T'')
                     ''acme brew'']\<rparr>)
   \<and> status no_results = Available"
proof -
  let ?w = "primed_world ''https://none.example''"
  let ?data = "PDict [(''count'', PInt 0), (''trademarkIds'', PList [])]"
  let ?resp = "\<lparr>status_code = 200, resp_text = ''{...}'', resp_json = Inr ?data\<rparr>"
  have search: "quick_search ?w (normalize_query ''  acme   brew '') (PStr ''T'')
                  ''https://none.example''
                = (Inr ?resp, ?w\<lparr>sent := [search_request ''https://none.example/search/quick''
                                             (PStr ''T'') ''acme brew'']\<rparr>)"
    by (simp add: normalize_acme search_none ok_json_def)
  have "is_success ?resp" by (simp add: is_success_def)
  moreover have "resp_json ?resp = Inr ?data" by simp
  moreover have "(0::int) = 0 \<or> ([]::pyval list) = []" by simp
  ultimately show ?thesis
    using zero_results_give_available [OF tm_base_url_primed _ token_primed search _ _ parse_none]
    by simp
qed

section \<open>The steps of the checker\<close>

lemma copy_match_id [simp]: "copy_match p = p"
  by (cases p) (simp add: copy_match_def TrademarkMatch_init_def)

lemma map_copy_match [simp]: "map copy_match ps = ps"
  by (induction ps) simp_all

lemma map_exn_all2: "map_exn f xs = Inr ys \<Longrightarrow> list_all2 (\<lambda>x y. f x = Inr y) xs ys"
  by (induction xs arbitrary: ys) (auto split: sum.splits)

lemma map_exn_map:
  assumes "map_exn f xs = Inr ys" and "\<And>x y. x \<in> set xs \<Longrightarrow> f x = Inr y \<Longrightarrow> g y = h x"
  shows "map g ys = map h xs"
  using assms
proof (induction xs arbitrary: ys)
  case Nil
  then show ?case by simp
next
  case (Cons x xs)
  then show ?case by (auto split: sum.splits)
qed

lemma map_exn_source:
  assumes "map_exn f xs = Inr ys" and "y \<in> set ys"
  shows "\<exists>x\<in>set xs. f x = Inr y"
  using map_exn_all2 [OF assms(1)] assms(2)
  by (induction rule: list_all2_induct) auto

lemma map_exn_pred:
  assumes "map_exn f xs = Inr ys" and "\<And>x y. x \<in> set xs \<Longrightarrow> f x = Inr y \<Longrightarrow> P y"
  shows "\<forall>y\<in>set ys. P y"
  using map_exn_source [OF assms(1)] assms(2) by blast

lemma init_fields:
  "tm_id (TrademarkMatch_init i ws st cs ls) = i"
  "tm_words (TrademarkMatch_init i ws st cs ls) = ws"
  "tm_status (TrademarkMatch_init i ws st cs ls) = st"
  "tm_classes (TrademarkMatch_init i ws st cs ls) = (case cs of Some c \<Rightarrow> c | None \<Rightarrow> [])"
  "tm_class_labels (TrademarkMatch_init i ws st cs ls) = (case ls of Some l \<Rightarrow> l | None \<Rightarrow> [])"
  by (simp_all add: TrademarkMatch_init_def)

lemma parse_detail_labels:
  "parse_detail order d = Inr m \<Longrightarrow> tm_class_labels m = map label_nice_class (tm_classes m)"
  by (auto simp: parse_detail_def init_fields Let_def split: detail_result.splits pyval.splits sum.splits)

lemma parse_detail_id: "parse_detail order d = Inr m \<Longrightarrow> tm_id m = detail_id d"
  by (auto simp: parse_detail_def init_fields Let_def split: detail_result.splits pyval.splits sum.splits)

lemma parse_detail_words:
  "parse_detail order (DetailData i (PDict t)) = Inr m \<Longrightarrow> tm_words m = Some (py_str (record_words t))"
  by (auto simp: parse_detail_def init_fields Let_def split: sum.splits)

lemma bare_match_fields:
  "tm_id (bare_match i) = i" "tm_words (bare_match i) = None" "tm_status (bare_match i) = None"
  "tm_classes (bare_match i) = []" "tm_class_labels (bare_match i) = []"
  by (simp_all add: bare_match_def init_fields)

lemma words_conditions:
  "words_truthy p = (match_words p \<noteq> [])"
  "words_truthy p \<Longrightarrow> words_lower p = py_lower (match_words p)"
  by (auto simp: words_truthy_def words_lower_def match_words_def split: option.splits)

lemma filter_words:
  "filter (\<lambda>p. words_truthy p \<and> words_lower p = ql) ps
   = filter (\<lambda>p. match_words p \<noteq> [] \<and> py_lower (match_words p) = ql) ps"
  "filter (\<lambda>p. words_truthy p \<and> words_lower p \<noteq> ql) ps
   = filter (\<lambda>p. match_words p \<noteq> [] \<and> py_lower (match_words p) \<noteq> ql) ps"
  by (rule filter_cong; auto simp: words_conditions)+

lemma partition_lengths:
  "length (filter (\<lambda>p. T p \<and> E p) ps) + length (filter (\<lambda>p. T p \<and> \<not> E p) ps) > 0
   \<longleftrightarrow> (\<exists>p\<in>set ps. T p)"
  by (induction ps) auto

lemma result_fields:
  "label (CheckResult_init l st sm why det ex si) = l"
  "status (CheckResult_init l st sm why det ex si) = st"
  "summary (CheckResult_init l st sm why det ex si) = sm"
  "why_this_matters (CheckResult_init l st sm why det ex si) = why"
  "details (CheckResult_init l st sm why det ex si) = det"
  "exact_matches (CheckResult_init l st sm why det ex si) = (case ex of Some ms \<Rightarrow> ms | None \<Rightarrow> [])"
  "similar_matches (CheckResult_init l st sm why det ex si) = (case si of Some ms \<Rightarrow> ms | None \<Rightarrow> [])"
  by (simp_all add: CheckResult_init_def)

lemma build_result_some_words:
  assumes "\<exists>p\<in>set parsed. match_words p \<noteq> []"
  obtains r where "build_result q count ids top_ids parsed = Inr r"
    and "exact_matches r = filter (\<lambda>p. match_words p \<noteq> [] \<and> py_lower (match_words p) = py_lower q) parsed"
    and "similar_matches r = filter (\<lambda>p. match_words p \<noteq> [] \<and> py_lower (match_words p) \<noteq> py_lower q) parsed"
    and "status r = (if exact_matches r \<noteq> [] then Taken else Similar)"
    and "details r = Some (''Found '' @ str_int count @ '' registered match(es). Showing the top ''
                           @ str_int (int (length top_ids)) @ ''.'')"
proof -
  let ?E = "filter (\<lambda>p. match_words p \<noteq> [] \<and> py_lower (match_words p) = py_lower q) parsed"
  let ?S = "filter (\<lambda>p. match_words p \<noteq> [] \<and> py_lower (match_words p) \<noteq> py_lower q) parsed"
  have pos: "length ?E + length ?S > 0"
    using assms partition_lengths [of "\<lambda>p. match_words p \<noteq> []" "\<lambda>p. py_lower (match_words p) = py_lower q" parsed]
    by simp
  let ?r = "CheckResult_init ''Trademark (IP Australia)''
                    (if length ?E > 0 then Taken else Similar)
                    (Some (if length ?E > 0
                           then ''An identical registered trademark exists in Australia.''
                           else ''Similar registered trademarks exist in Australia.''))
                    (Some (if length ?E > 0
                           then ''Using the same name can create a high risk of trademark conflict, especially in related industries.''
                           else ''Even if names aren't identical, similar marks in related categories can still cause legal and branding risk.''))
                    (Some (''Found '' @ str_int count @ '' registered match(es). Showing the top ''
                           @ str_int (int (length top_ids)) @ ''.''))
                    (Some ?E)
                    (Some ?S)"
  have "build_result q count ids top_ids parsed = Inr ?r"
    unfolding build_result_def Let_def filter_words using pos by simp
  moreover have "exact_matches ?r = ?E" "similar_matches ?r = ?S"
    "status ?r = (if exact_matches ?r \<noteq> [] then Taken else Similar)"
    "details ?r = Some (''Found '' @ str_int count @ '' registered match(es). Showing the top ''
                           @ str_int (int (length top_ids)) @ ''.'')"
    by (simp_all add: result_fields)
  ultimately show ?thesis using that by blast
qed


section \<open>From the steps to the whole check\<close>

lemma check_reaches_build:
  assumes base: "tm_base_url w = Some base_url" "base_url \<noteq> []"
    and tok: "get_ipau_access_token w = (Inr tok, w1)"
    and search: "quick_search w1 (normalize_query name) tok base_url = (Inr response, w2)"
    and resp: "is_success response" "resp_json response = Inr data"
    and parse: "parse_quick_search data = Inr (count, trademark_ids)"
    and some: "count \<noteq> 0" "trademark_ids \<noteq> []"
    and fetch: "fetch_details w2 (take 5 trademark_ids) tok base_url = (Inr detail_results, w3)"
    and parsed: "map_exn (parse_detail (hash_order w3)) detail_results = Inr parsed"
  shows "check_ip_australia_trademark w name =
           (case build_result (normalize_query name) count trademark_ids (take 5 trademark_ids)
                   parsed of
              Inl e \<Rightarrow> if is_exception e then Inr (request_failed e) else Inl e
            | Inr r \<Rightarrow> Inr r, w3)"
proof -
  have "after_search w2 (normalize_query name) tok base_url data
        = (build_result (normalize_query name) count trademark_ids (take 5 trademark_ids) parsed, w3)"
    using parse some fetch parsed by (simp add: after_search_def Let_def)
  then have "try_body w (normalize_query name) base_url
        = (build_result (normalize_query name) count trademark_ids (take 5 trademark_ids) parsed, w3)"
    using tok search resp by (simp add: try_body_def)
  then show ?thesis
    using base by (simp add: check_ip_australia_trademark_def unset_simps split: sum.splits)
qed

lemma build_result_matches:
  assumes "build_result q count ids top_ids parsed = Inr r"
    and "m \<in> set (exact_matches r) \<union> set (similar_matches r)"
  shows "m \<in> set parsed \<or> (\<exists>i. m = bare_match i)"
  using assms
  by (auto simp: build_result_def Let_def result_fields split: if_splits sum.splits)

lemma labels_bare: "tm_class_labels (bare_match i) = map label_nice_class (tm_classes (bare_match i))"
  by (simp add: bare_match_fields)

lemma after_search_labels:
  assumes "after_search w q tok b data = (Inr r, w')"
    and m: "m \<in> set (exact_matches r) \<union> set (similar_matches r)"
  shows "tm_class_labels m = map label_nice_class (tm_classes m)"
proof (cases "parse_quick_search data")
  case (Inl e)
  then show ?thesis using assms by (simp add: after_search_def)
next
  case (Inr ci)
  obtain count ids where ci: "ci = (count, ids)" by (cases ci)
  show ?thesis
  proof (cases "count = 0 \<or> ids = []")
    case True
    then have "r = no_results" using assms(1) Inr ci by (auto simp: after_search_def)
    then show ?thesis using m by (simp add: no_results_fields)
  next
    case False
    obtain res w3 where f: "fetch_details w (take 5 ids) tok b = (res, w3)" by force
    show ?thesis
    proof (cases res)
      case (Inl e)
      then show ?thesis using assms(1) Inr ci False f by (simp add: after_search_def Let_def)
    next
      case drs: (Inr detail_results)
      show ?thesis
      proof (cases "map_exn (parse_detail (hash_order w3)) detail_results")
        case (Inl e)
        then show ?thesis
          using assms(1) Inr ci False f drs by (simp add: after_search_def Let_def)
      next
        case parsed: (Inr parsed)
        have "build_result q count ids (take 5 ids) parsed = Inr r"
          using assms(1) Inr ci False f drs parsed by (simp add: after_search_def Let_def)
        from build_result_matches [OF this m]
        show ?thesis
        proof
          assume "m \<in> set parsed"
          with map_exn_source [OF parsed] obtain d
            where "parse_detail (hash_order w3) d = Inr m" by blast
          then show ?thesis by (rule parse_detail_labels)
        next
          assume "\<exists>i. m = bare_match i"
          then show ?thesis using labels_bare by auto
        qed
      qed
    qed
  qed
qed

lemma request_failed_fields:
  "status (request_failed e) = Unknown"
  "details (request_failed e) = Some (''Request failed: '' @ exn_str e)"
  "exact_matches (request_failed e) = []"
  "similar_matches (request_failed e) = []"
  by (simp_all add: request_failed_def CheckResult_init_def)

lemma search_failed_fields:
  "status (search_failed response) = Unknown"
  "details (search_failed response)
     = Some (''IP Australia error '' @ str_int (status_code response) @ '': ''
             @ take 250 (resp_text response))"
  "exact_matches (search_failed response) = []"
  "similar_matches (search_failed response) = []"
  by (simp_all add: search_failed_def CheckResult_init_def)

lemma try_body_labels:
  assumes "try_body w q b = (Inr r, w')"
    and m: "m \<in> set (exact_matches r) \<union> set (similar_matches r)"
  shows "tm_class_labels m = map label_nice_class (tm_classes m)"
proof -
  obtain t w1 where t: "get_ipau_access_token w = (t, w1)" by force
  show ?thesis
  proof (cases t)
    case (Inl e)
    then show ?thesis using assms(1) t by (simp add: try_body_def)
  next
    case tok: (Inr tok)
    obtain s w2 where s: "quick_search w1 q tok b = (s, w2)" by force
    show ?thesis
    proof (cases s)
      case (Inl e)
      then show ?thesis using assms(1) t tok s by (simp add: try_body_def)
    next
      case resp: (Inr response)
      show ?thesis
      proof (cases "is_success response")
        case False
        then have "r = search_failed response"
          using assms(1) t tok s resp by (simp add: try_body_def)
        then show ?thesis using m by (simp add: search_failed_fields)
      next
        case True
        show ?thesis
        proof (cases "resp_json response")
          case (Inl e)
          then show ?thesis using assms(1) t tok s resp True by (simp add: try_body_def)
        next
          case (Inr data)
          then have "after_search w2 q tok b data = (Inr r, w')"
            using assms(1) t tok s resp True by (simp add: try_body_def)
          from after_search_labels [OF this m] show ?thesis .
        qed
      qed
    qed
  qed
qed

lemma check_labels:
  assumes "fst (check_ip_australia_trademark w name) = Inr r"
    and m: "m \<in> set (exact_matches r) \<union> set (similar_matches r)"
  shows "tm_class_labels m = map label_nice_class (tm_classes m)"
proof (cases "unset (tm_base_url w)")
  case True
  then have "r = missing_base_url"
    using assms(1) by (simp add: check_ip_australia_trademark_def)
  then show ?thesis using m by (simp add: missing_base_url_fields)
next
  case False
  obtain t w' where t: "try_body w (normalize_query name) (the (tm_base_url w)) = (t, w')"
    by force
  show ?thesis
  proof (cases t)
    case (Inl e)
    then have "r = request_failed e"
      using assms(1) False t
      by (simp add: check_ip_australia_trademark_def split: if_splits)
    then show ?thesis using m by (simp add: request_failed_fields)
  next
    case (Inr r')
    then have "r' = r"
      using assms(1) False t by (simp add: check_ip_australia_trademark_def)
    with t Inr have "try_body w (normalize_query name) (the (tm_base_url w)) = (Inr r, w')"
      by simp
    from try_body_labels [OF this m] show ?thesis .
  qed
qed

lemma label_35: "label_nice_class ''35'' = ''35 (Advertising, business & retail services)''"
  by code_simp

lemma label_999: "label_nice_class ''999'' = ''999''"
  by code_simp

lemma table_size: "length NICE_CLASS_MAP = 45"
  by (simp add: NICE_CLASS_MAP_def)

lemma table_keys: "map fst NICE_CLASS_MAP = map dec_nat [1..<46]"
  by code_simp

lemma label_nice_class_cases:
  "label_nice_class n =
     (case map_of NICE_CLASS_MAP (py_strip n) of
        Some description \<Rightarrow> py_strip n @ '' ('' @ description @ '')''
      | None \<Rightarrow> py_strip n)"
  by (simp add: label_nice_class_def Let_def)

lemma check_tm_example:
  "fst (check_ip_australia_trademark (primed_world ''https://tm.example'') ''  acme   brew '')
   = Inr acme_result"
  by code_simp

section \<open>Classes and their labels\<close>

text \<open>
  C8. In every result the checker returns, each match, exact or similar, carries labels
  that are its classes rendered one by one, in order, by \<open>label_nice_class\<close>; so the two
  lists have the same length. \<open>label_nice_class\<close> trims the code and, if the trimmed code
  is a key of the table \<open>NICE_CLASS_MAP\<close> of 45 entries, returns it followed by its
  description in parentheses, and otherwise returns the trimmed code alone: \<open>35\<close> gives
  \<open>35 (Advertising, business & retail services)\<close> and \<open>999\<close> gives \<open>999\<close>.
\<close>

theorem class_labels_follow_classes:
  "(fst (check_ip_australia_trademark w name) = Inr r \<longrightarrow>
      (\<forall>m \<in> set (exact_matches r) \<union> set (similar_matches r).
         length (tm_class_labels m) = length (tm_classes m)
         \<and> tm_class_labels m = map label_nice_class (tm_classes m)))
   \<and> label_nice_class n =
       (case map_of NICE_CLASS_MAP (py_strip n) of
          Some description \<Rightarrow> py_strip n @ '' ('' @ description @ '')''
        | None \<Rightarrow> py_strip n)
   \<and> length NICE_CLASS_MAP = 45
   \<and> label_nice_class ''35'' = ''35 (Advertising, business & retail services)''
   \<and> label_nice_class ''999'' = ''999''"
proof -
  have "tm_class_labels m = map label_nice_class (tm_classes m)"
    if "fst (check_ip_australia_trademark w name) = Inr r"
      and "m \<in> set (exact_matches r) \<union> set (similar_matches r)" for m
    using check_labels [OF that] .
  then have "fst (check_ip_australia_trademark w name) = Inr r \<longrightarrow>
      (\<forall>m \<in> set (exact_matches r) \<union> set (similar_matches r).
         length (tm_class_labels m) = length (tm_classes m)
         \<and> tm_class_labels m = map label_nice_class (tm_classes m))"
    by simp
  then show ?thesis
    using label_nice_class_cases [of n] table_size label_35 label_999 by simp
qed

theorem class_labels_follow_classes_witness:
  "fst (check_ip_australia_trademark (primed_world ''https://tm.example'') ''  acme   brew '')
     = Inr acme_result
   \<and> acme_match \<in> set (exact_matches acme_result) \<union> set (similar_matches acme_result)
   \<and> tm_classes acme_match = [''9'', ''35'']
   \<and> length (tm_class_labels acme_match) = length (tm_classes acme_match)
   \<and> tm_class_labels acme_match = map label_nice_class (tm_classes acme_match)"
proof -
  have mem: "acme_match \<in> set (exact_matches acme_result) \<union> set (similar_matches acme_result)"
    by (simp add: acme_result_def)
  have "length (tm_class_labels acme_match) = length (tm_classes acme_match)
        \<and> tm_class_labels acme_match = map label_nice_class (tm_classes acme_match)"
    using class_labels_follow_classes
            [of "primed_world ''https://tm.example''" "''  acme   brew ''" acme_result "''35''"]
          check_tm_example mem
    by blast
  moreover have "tm_classes acme_match = [''9'', ''35'']"
    by (simp add: acme_match_def)
  ultimately show ?thesis using check_tm_example mem by simp
qed

subsection \<open>The scenario with three marks\<close>

lemma quick_search_primed:
  "quick_search (primed_world b) q (PStr ''T'') b
   = (registry (search_request (py_rstrip_char (CHR ''/'') b @ ''/search/quick'') (PStr ''T'') q),
      (primed_world b)
        \<lparr>sent := [search_request (py_rstrip_char (CHR ''/'') b @ ''/search/quick'') (PStr ''T'') q]\<rparr>)"
  by (simp add: quick_search_def primed_fields Let_def)

lemma fetch_details_world:
  "snd (fetch_details w ids tok b) = w\<lparr>sent := sent w @ map (\<lambda>i. detail_request i tok b) ids\<rparr>"
  by (simp add: fetch_details_def)

lemma rstrip_slash_tm:
  "py_rstrip_char (CHR ''/'') ''https://tm.example'' = ''https://tm.example''"
  by (simp add: py_rstrip_char_def)

lemma search_tm:
  "quick_search (primed_world ''https://tm.example'') q (PStr ''T'') ''https://tm.example''
   = (ok_json (PDict [(''count'', PInt 3), (''trademarkIds'', PList tm_ids)]),
      searched_world ''https://tm.example'' q)"
  by (simp add: quick_search_primed rstrip_slash_tm searched_world_def registry_def
      registry_table_def search_request_def tm_ids_def)

lemma parse_tm:
  "parse_quick_search (PDict [(''count'', PInt 3), (''trademarkIds'', PList tm_ids)])
   = Inr (3, tm_ids)"
  by (simp add: parse_quick_search_def list_items_def)

lemma take_tm_ids: "take 5 tm_ids = tm_ids"
  by (simp add: tm_ids_def)

lemma fetched_tm_results:
  "fst (fetch_details (searched_world ''https://tm.example'' q) tm_ids (PStr ''T'')
          ''https://tm.example'') = Inr tm_details"
  by code_simp

lemma fetch_tm:
  "fetch_details (searched_world ''https://tm.example'' q) tm_ids (PStr ''T'') ''https://tm.example''
   = (Inr tm_details, fetched_world ''https://tm.example'' q tm_ids)"
proof -
  have "snd (fetch_details (searched_world ''https://tm.example'' q) tm_ids (PStr ''T'')
          ''https://tm.example'') = fetched_world ''https://tm.example'' q tm_ids"
    by (simp add: fetch_details_world searched_world_def fetched_world_def)
  with fetched_tm_results [of q] show ?thesis
    by (metis prod.collapse)
qed

lemma hash_order_fetched: "hash_order (fetched_world b q ids) = insertion_order"
  by (simp add: fetched_world_def primed_fields)

lemma parsed_tm:
  "map_exn (parse_detail insertion_order) tm_details
   = Inr [acme_match, spaced_match, empty_match ''300'']"
  by code_simp

section \<open>Exact and similar matches\<close>

text \<open>
  C3. Take any run in which the search reports marks and the detail fetches and their
  parsing complete, giving the parsed matches \<open>parsed\<close>, at least one with non-empty
  words. Then the checker returns a result whose exact matches are the parsed matches
  with non-empty words equal, after lowercasing, to the lowercased normalized query, in
  their order, and whose similar matches are those with non-empty words that differ; a
  match with empty words is in neither list. The status is \<open>taken\<close> if there is an exact
  match and \<open>similar\<close> otherwise.
\<close>

theorem matches_split_by_words:
  assumes base: "tm_base_url w = Some base_url" "base_url \<noteq> []"
    and tok: "get_ipau_access_token w = (Inr tok, w1)"
    and search: "quick_search w1 (normalize_query name) tok base_url = (Inr response, w2)"
    and resp: "is_success response" "resp_json response = Inr data"
    and parse: "parse_quick_search data = Inr (count, trademark_ids)"
    and some: "count \<noteq> 0" "trademark_ids \<noteq> []"
    and fetch: "fetch_details w2 (take 5 trademark_ids) tok base_url = (Inr detail_results, w3)"
    and parsed: "map_exn (parse_detail (hash_order w3)) detail_results = Inr parsed"
    and words: "\<exists>p\<in>set parsed. match_words p \<noteq> []"
  shows "\<exists>r. check_ip_australia_trademark w name = (Inr r, w3)
           \<and> exact_matches r =
               filter (\<lambda>p. match_words p \<noteq> []
                         \<and> py_lower (match_words p) = py_lower (normalize_query name)) parsed
           \<and> similar_matches r =
               filter (\<lambda>p. match_words p \<noteq> []
                         \<and> py_lower (match_words p) \<noteq> py_lower (normalize_query name)) parsed
           \<and> (\<forall>p\<in>set parsed. match_words p = [] \<longrightarrow>
                  p \<notin> set (exact_matches r) \<and> p \<notin> set (similar_matches r))
           \<and> status r = (if exact_matches r \<noteq> [] then Taken else Similar)"
proof -
  from build_result_some_words [OF words, of "normalize_query name" count trademark_ids
      "take 5 trademark_ids"]
  obtain r where r: "build_result (normalize_query name) count trademark_ids
                        (take 5 trademark_ids) parsed = Inr r"
    and ex: "exact_matches r =
               filter (\<lambda>p. match_words p \<noteq> []
                         \<and> py_lower (match_words p) = py_lower (normalize_query name)) parsed"
    and si: "similar_matches r =
               filter (\<lambda>p. match_words p \<noteq> []
                         \<and> py_lower (match_words p) \<noteq> py_lower (normalize_query name)) parsed"
    and st: "status r = (if exact_matches r \<noteq> [] then Taken else Similar)"
    by blast
  have "check_ip_australia_trademark w name = (Inr r, w3)"
    using check_reaches_build [OF base tok search resp parse some fetch parsed] r by simp
  moreover have "\<forall>p\<in>set parsed. match_words p = [] \<longrightarrow>
                  p \<notin> set (exact_matches r) \<and> p \<notin> set (similar_matches r)"
    by (simp add: ex si)
  ultimately show ?thesis using ex si st by blast
qed

lemma match_words_tm:
  "match_words acme_match = ''ACME Brew''"
  "match_words spaced_match = ''Acme  Brew''"
  "match_words (empty_match i) = []"
  by (simp_all add: match_words_def acme_match_def spaced_match_def empty_match_def)

lemma lower_tm:
  "py_lower ''ACME Brew'' = ''acme brew''"
  "py_lower ''Acme  Brew'' = ''acme  brew''"
  "py_lower ''acme brew'' = ''acme brew''"
  by code_simp+

theorem matches_split_by_words_witness:
  "\<exists>r. check_ip_australia_trademark (primed_world ''https://tm.example'') ''  acme   brew ''
          = (Inr r, fetched_world ''https://tm.example'' ''acme brew'' tm_ids)
       \<and> exact_matches r = [acme_match]
       \<and> similar_matches r = [spaced_match]
       \<and> empty_match ''300'' \<notin> set (exact_matches r)
       \<and> empty_match ''300'' \<notin> set (similar_matches r)
       \<and> status r = Taken"
proof -
  let ?w = "primed_world ''https://tm.example''"
  let ?data = "PDict [(''count'', PInt 3), (''trademarkIds'', PList tm_ids)]"
  let ?resp = "\<lparr>status_code = 200, resp_text = ''{...}'', resp_json = Inr ?data\<rparr>"
  let ?parsed = "[acme_match, spaced_match, empty_match ''300'']"
  have search: "quick_search ?w (normalize_query ''  acme   brew '') (PStr ''T'')
                  ''https://tm.example''
                = (Inr ?resp, searched_world ''https://tm.example'' ''acme brew'')"
    by (simp add: normalize_acme search_tm ok_json_def)
  have ok: "is_success ?resp" by (simp add: is_success_def)
  have json: "resp_json ?resp = Inr ?data" by simp
  have nz: "(3::int) \<noteq> 0" "tm_ids \<noteq> []" by (simp_all add: tm_ids_def)
  have fetch: "fetch_details (searched_world ''https://tm.example'' ''acme brew'')
                 (take 5 tm_ids) (PStr ''T'') ''https://tm.example''
               = (Inr tm_details, fetched_world ''https://tm.example'' ''acme brew'' tm_ids)"
    by (simp add: take_tm_ids fetch_tm)
  have parsed: "map_exn (parse_detail
                  (hash_order (fetched_world ''https://tm.example'' ''acme brew'' tm_ids)))
                  tm_details = Inr ?parsed"
    by (simp add: hash_order_fetched parsed_tm)
  have words: "\<exists>p\<in>set ?parsed. match_words p \<noteq> []"
    by (simp add: match_words_tm)
  from matches_split_by_words [OF tm_base_url_primed _ token_primed search ok json parse_tm nz
      fetch parsed words]
  have "\<exists>r. check_ip_australia_trademark ?w ''  acme   brew ''
              = (Inr r, fetched_world ''https://tm.example'' ''acme brew'' tm_ids)
           \<and> exact_matches r = [acme_match]
           \<and> similar_matches r = [spaced_match]
           \<and> empty_match ''300'' \<notin> set (exact_matches r)
           \<and> empty_match ''300'' \<notin> set (similar_matches r)
           \<and> status r = (if exact_matches r \<noteq> [] then Taken else Similar)"
    by (simp add: normalize_acme match_words_tm lower_tm)
  then show ?thesis by auto
qed

section \<open>Marks that could not be described\<close>












section \<open>Words are compared as extracted\<close>

lemma lower_space: "py_isspace c \<Longrightarrow> py_lower_char c = c"
  apply (simp add: py_isspace_def whitespace_chars_def)
  apply (elim disjE; hypsubst; simp add: py_lower_char_def upper_chars_def lower_chars_def)
  done

lemma lower_blank: "py_lower_char (CHR '' '') = CHR '' ''"
  by (simp add: py_lower_char_def upper_chars_def lower_chars_def)

lemma dropWhile_same_length:
  "length (dropWhile P xs) = length xs \<Longrightarrow> dropWhile P xs = xs"
proof (cases xs)
  case Nil
  then show ?thesis by simp
next
  case (Cons x xs')
  assume len: "length (dropWhile P xs) = length xs"
  have "\<not> P x"
  proof
    assume "P x"
    then have "length (dropWhile P xs) = length (dropWhile P xs')" using Cons by simp
    also have "\<dots> \<le> length xs'" by (rule length_dropWhile_le)
    finally show False using len Cons by simp
  qed
  then show ?thesis using Cons by simp
qed

lemma length_py_strip: "length (py_strip s) \<le> length s"
proof -
  have "length (py_strip s) \<le> length (dropWhile py_isspace s)"
    unfolding py_strip_def py_rstrip_def py_lstrip_def
    using length_dropWhile_le [of py_isspace "rev (dropWhile py_isspace s)"] by simp
  also have "\<dots> \<le> length s" by (rule length_dropWhile_le)
  finally show ?thesis .
qed

lemma py_strip_same_length:
  assumes "length (py_strip s) = length s"
  shows "py_strip s = s"
proof -
  let ?a = "dropWhile py_isspace s"
  have l1: "length (py_strip s) \<le> length ?a"
    unfolding py_strip_def py_rstrip_def py_lstrip_def
    using length_dropWhile_le [of py_isspace "rev ?a"] by simp
  have l2: "length ?a \<le> length s" by (rule length_dropWhile_le)
  from assms l1 l2 have "length ?a = length s" by simp
  then have a: "?a = s" by (rule dropWhile_same_length)
  have "length (dropWhile py_isspace (rev s)) = length (rev s)"
    using assms a by (simp add: py_strip_def py_rstrip_def py_lstrip_def)
  then have "dropWhile py_isspace (rev s) = rev s" by (rule dropWhile_same_length)
  then show ?thesis using a by (simp add: py_strip_def py_rstrip_def py_lstrip_def)
qed

lemma length_sub_ws: "length (sub_ws s) \<le> length s"
proof (induction s rule: sub_ws.induct)
  case 1
  then show ?case by simp
next
  case (2 c cs)
  show ?case
  proof (cases "py_isspace c")
    case True
    have "length (sub_ws (dropWhile py_isspace cs)) \<le> length (dropWhile py_isspace cs)"
      using 2(1) True by simp
    also have "\<dots> \<le> length cs" by (rule length_dropWhile_le)
    finally show ?thesis using True by simp
  next
    case False
    then show ?thesis using 2(2) by simp
  qed
qed

lemma sub_ws_same_length:
  "length (sub_ws s) = length s \<Longrightarrow>
   sub_ws s = map (\<lambda>c. if py_isspace c then CHR '' '' else c) s"
proof (induction s rule: sub_ws.induct)
  case 1
  then show ?case by simp
next
  case (2 c cs)
  show ?case
  proof (cases "py_isspace c")
    case True
    let ?d = "dropWhile py_isspace cs"
    have len: "length (sub_ws ?d) = length cs" using 2(3) True by simp
    have "length (sub_ws ?d) \<le> length ?d" by (rule length_sub_ws)
    moreover have "length ?d \<le> length cs" by (rule length_dropWhile_le)
    ultimately have "length ?d = length cs" using len by simp
    then have d: "?d = cs" by (rule dropWhile_same_length)
    then have "length (sub_ws ?d) = length ?d" using len by simp
    from 2(1) [OF True this] show ?thesis using True d by simp
  next
    case False
    then have "length (sub_ws cs) = length cs" using 2(3) by simp
    from 2(2) [OF False this] show ?thesis using False by simp
  qed
qed

lemma lower_fixes_normalized:
  assumes "py_lower ws = py_lower (normalize_query ws)"
  shows "normalize_query ws = ws"
proof -
  have "length ws = length (normalize_query ws)"
    using arg_cong [OF assms, of length] by (simp add: py_lower_def)
  moreover have "length (normalize_query ws) \<le> length (py_strip ws)"
    unfolding normalize_query_def by (rule length_sub_ws)
  moreover have "length (py_strip ws) \<le> length ws" by (rule length_py_strip)
  ultimately have l: "length (py_strip ws) = length ws"
    "length (sub_ws (py_strip ws)) = length (py_strip ws)"
    by (simp_all add: normalize_query_def)
  have strip: "py_strip ws = ws" using l(1) by (rule py_strip_same_length)
  have sub: "normalize_query ws = map (\<lambda>c. if py_isspace c then CHR '' '' else c) ws"
    using sub_ws_same_length [OF l(2)] strip by (simp add: normalize_query_def)
  have "\<forall>c\<in>set ws. py_lower_char c = py_lower_char (if py_isspace c then CHR '' '' else c)"
    using assms unfolding sub py_lower_def by simp
  then have "\<forall>c\<in>set ws. (if py_isspace c then CHR '' '' else c) = c"
    using lower_space lower_blank by (metis (full_types))
  then have "map (\<lambda>c. if py_isspace c then CHR '' '' else c) ws = ws"
    by (simp add: map_idI)
  with sub show ?thesis by simp
qed

lemma map_exn_target:
  assumes "map_exn f xs = Inr ys" and "x \<in> set xs"
  shows "\<exists>y\<in>set ys. f x = Inr y"
  using map_exn_all2 [OF assms(1)] assms(2)
  by (induction rule: list_all2_induct) auto

text \<open>
  C10. The words of a record are compared as they were extracted, lowercased but not
  whitespace-normalized. Take a run as in C3 and a fetched record whose words, once
  normalized like the query and lowercased, equal the lowercased normalized query, but
  which are not in normalized form themselves (leading or trailing whitespace, a run of
  whitespace, or a whitespace character other than a space). Then its match keeps these
  words verbatim and is a similar match, and no exact match has these words.
\<close>

theorem unnormalized_words_are_similar:
  assumes base: "tm_base_url w = Some base_url" "base_url \<noteq> []"
    and tok: "get_ipau_access_token w = (Inr tok, w1)"
    and search: "quick_search w1 (normalize_query name) tok base_url = (Inr response, w2)"
    and resp: "is_success response" "resp_json response = Inr data"
    and parse: "parse_quick_search data = Inr (count, trademark_ids)"
    and some: "count \<noteq> 0" "trademark_ids \<noteq> []"
    and fetch: "fetch_details w2 (take 5 trademark_ids) tok base_url = (Inr detail_results, w3)"
    and parsed: "map_exn (parse_detail (hash_order w3)) detail_results = Inr parsed"
    and rec: "DetailData i (PDict t) \<in> set detail_results"
    and ws: "record_words t = PStr ws"
    and same: "py_lower (normalize_query ws) = py_lower (normalize_query name)"
    and differs: "normalize_query ws \<noteq> ws"
  shows "\<exists>r p. check_ip_australia_trademark w name = (Inr r, w3)
             \<and> p \<in> set parsed \<and> tm_id p = i \<and> tm_words p = Some ws
             \<and> p \<in> set (similar_matches r)
             \<and> (\<forall>p'\<in>set (exact_matches r). tm_words p' \<noteq> Some ws)"
proof -
  from map_exn_target [OF parsed rec] obtain p
    where p: "p \<in> set parsed" "parse_detail (hash_order w3) (DetailData i (PDict t)) = Inr p"
    by blast
  have words_p: "tm_words p = Some ws"
    using parse_detail_words [OF p(2)] ws by simp
  have id_p: "tm_id p = i"
    using parse_detail_id [OF p(2)] by simp
  have nonempty: "ws \<noteq> []"
    using differs by (auto simp: normalize_query_def py_strip_def py_lstrip_def py_rstrip_def)
  have not_equal: "py_lower ws \<noteq> py_lower (normalize_query name)"
  proof
    assume "py_lower ws = py_lower (normalize_query name)"
    with same have "py_lower ws = py_lower (normalize_query ws)" by simp
    from lower_fixes_normalized [OF this] differs show False by simp
  qed
  have mw: "match_words p = ws" using words_p by (simp add: match_words_def)
  have "\<exists>p\<in>set parsed. match_words p \<noteq> []" using p(1) mw nonempty by auto
  from build_result_some_words [OF this, of "normalize_query name" count trademark_ids
      "take 5 trademark_ids"]
  obtain r where r: "build_result (normalize_query name) count trademark_ids
                        (take 5 trademark_ids) parsed = Inr r"
    and ex: "exact_matches r =
               filter (\<lambda>p. match_words p \<noteq> []
                         \<and> py_lower (match_words p) = py_lower (normalize_query name)) parsed"
    and si: "similar_matches r =
               filter (\<lambda>p. match_words p \<noteq> []
                         \<and> py_lower (match_words p) \<noteq> py_lower (normalize_query name)) parsed"
    by blast
  have "check_ip_australia_trademark w name = (Inr r, w3)"
    using check_reaches_build [OF base tok search resp parse some fetch parsed] r by simp
  moreover have "p \<in> set (similar_matches r)"
    using p(1) mw nonempty not_equal by (simp add: si)
  moreover have "\<forall>p'\<in>set (exact_matches r). tm_words p' \<noteq> Some ws"
    using not_equal by (auto simp: ex match_words_def)
  ultimately show ?thesis using p(1) id_p words_p by blast
qed

lemma normalize_spaced: "normalize_query ''Acme  Brew'' = ''Acme Brew''"
  by (simp add: normalize_query_def py_strip_def py_lstrip_def py_rstrip_def py_isspace_def
      whitespace_chars_def)

lemma spaced_record_words:
  "record_words [(''markText'', PStr ''Acme  Brew''),
                 (''goodsAndServices'', PList [PDict [(''class'', PInt 42)]])]
   = PStr ''Acme  Brew''"
  by (simp add: record_words_def get_key_def)

theorem unnormalized_words_are_similar_witness:
  "\<exists>r p. check_ip_australia_trademark (primed_world ''https://tm.example'') ''  acme   brew ''
            = (Inr r, fetched_world ''https://tm.example'' ''acme brew'' tm_ids)
         \<and> p \<in> set [acme_match, spaced_match, empty_match ''300'']
         \<and> tm_id p = PStr ''200'' \<and> tm_words p = Some ''Acme  Brew''
         \<and> p \<in> set (similar_matches r)
         \<and> (\<forall>p'\<in>set (exact_matches r). tm_words p' \<noteq> Some ''Acme  Brew'')"
proof -
  let ?w = "primed_world ''https://tm.example''"
  let ?data = "PDict [(''count'', PInt 3), (''trademarkIds'', PList tm_ids)]"
  let ?resp = "\<lparr>status_code = 200, resp_text = ''{...}'', resp_json = Inr ?data\<rparr>"
  let ?t = "[(''markText'', PStr ''Acme  Brew''),
             (''goodsAndServices'', PList [PDict [(''class'', PInt 42)]])]"
  have search: "quick_search ?w (normalize_query ''  acme   brew '') (PStr ''T'')
                  ''https://tm.example''
                = (Inr ?resp, searched_world ''https://tm.example'' ''acme brew'')"
    by (simp add: normalize_acme search_tm ok_json_def)
  have ok: "is_success ?resp" by (simp add: is_success_def)
  have json: "resp_json ?resp = Inr ?data" by simp
  have nz: "(3::int) \<noteq> 0" "tm_ids \<noteq> []" by (simp_all add: tm_ids_def)
  have fetch: "fetch_details (searched_world ''https://tm.example'' ''acme brew'')
                 (take 5 tm_ids) (PStr ''T'') ''https://tm.example''
               = (Inr tm_details, fetched_world ''https://tm.example'' ''acme brew'' tm_ids)"
    by (simp add: take_tm_ids fetch_tm)
  have parsed: "map_exn (parse_detail
                  (hash_order (fetched_world ''https://tm.example'' ''acme brew'' tm_ids)))
                  tm_details = Inr [acme_match, spaced_match, empty_match ''300'']"
    by (simp add: hash_order_fetched parsed_tm)
  have rec: "DetailData (PStr ''200'') (PDict ?t) \<in> set tm_details"
    by (simp add: tm_details_def spaced_record_def)
  have same: "py_lower (normalize_query ''Acme  Brew'')
              = py_lower (normalize_query ''  acme   brew '')"
    by (simp add: normalize_spaced normalize_acme) code_simp
  have differs: "normalize_query ''Acme  Brew'' \<noteq> ''Acme  Brew''"
    by (simp add: normalize_spaced)
  from unnormalized_words_are_similar [OF tm_base_url_primed _ token_primed search ok json
      parse_tm nz fetch parsed rec spaced_record_words same differs]
  show ?thesis by simp
qed

section \<open>The detail fetches\<close>

lemma gather_all_returned:
  assumes "\<forall>r\<in>set rs. \<not> isl r"
  shows "gather pick rs = Inr (map projr rs)"
proof -
  have "filter (\<lambda>i. isl (rs ! i)) [0..<length rs] = []"
    using assms by (auto simp: filter_empty_conv)
  then show ?thesis by (simp add: gather_def)
qed

lemma gather_one_raised:
  assumes "\<exists>r\<in>set rs. isl r"
  shows "\<exists>e. gather pick rs = Inl e \<and> Inl e \<in> set rs"
proof -
  define failed where "failed = filter (\<lambda>i. isl (rs ! i)) [0..<length rs]"
  from assms obtain k where k: "k < length rs" "isl (rs ! k)"
    by (auto simp: in_set_conv_nth)
  then have ne: "failed \<noteq> []" by (auto simp: failed_def filter_empty_conv)
  define j where "j = (if pick failed \<in> set failed then pick failed else hd failed)"
  have "j \<in> set failed" using ne by (simp add: j_def)
  then have j: "j < length rs" "isl (rs ! j)" by (auto simp: failed_def)
  have "gather pick rs = Inl (projl (rs ! j))"
    using ne by (simp add: gather_def Let_def failed_def [symmetric] j_def)
  moreover have "Inl (projl (rs ! j)) = rs ! j" using j(2) by simp
  moreover have "rs ! j \<in> set rs" using j(1) by simp
  ultimately show ?thesis by metis
qed

lemma gather_returned:
  assumes "gather pick rs = Inr xs"
  shows "rs = map Inr xs"
proof -
  have all: "\<forall>r\<in>set rs. \<not> isl r"
  proof (rule ccontr)
    assume "\<not> ?thesis"
    then have "\<exists>r\<in>set rs. isl r" by simp
    from gather_one_raised [OF this, of pick] assms show False by auto
  qed
  from gather_all_returned [OF all, of pick] assms have "xs = map projr rs" by simp
  then have "map Inr xs = map (\<lambda>r. Inr (projr r)) rs" by simp
  also have "\<dots> = map (\<lambda>r. r) rs"
    using all by (intro map_cong) (auto simp: sum.collapse(2))
  finally show ?thesis by simp
qed

lemma fetch_bad_status:
  assumes "network w (detail_request i tok b) = Inr response" and "\<not> is_success response"
  shows "fetch_trademark_details w i tok b
         = Inr (DetailError i (''Detail fetch failed '' @ str_int (status_code response)
                               @ '': '' @ take 120 (resp_text response)))"
  using assms by (simp add: fetch_trademark_details_def)

lemma fetch_data:
  assumes "network w (detail_request i tok b) = Inr response" and "is_success response"
    and "resp_json response = Inr data"
  shows "fetch_trademark_details w i tok b = Inr (DetailData i data)"
  using assms by (simp add: fetch_trademark_details_def)

lemma fetch_bad_body:
  assumes "network w (detail_request i tok b) = Inr response" and "is_success response"
    and "resp_json response = Inl e" and "is_exception e"
  shows "fetch_trademark_details w i tok b
         = Inr (DetailError i (''Detail fetch returned non-JSON: ''
                               @ take 120 (resp_text response)))"
  using assms by (simp add: fetch_trademark_details_def)

lemma fetch_completed:
  assumes "network w (detail_request i tok b) = Inr response"
    and "\<forall>e. resp_json response = Inl e \<longrightarrow> is_exception e"
  shows "(\<exists>data. fetch_trademark_details w i tok b = Inr (DetailData i data))
         \<or> (\<exists>err. fetch_trademark_details w i tok b = Inr (DetailError i err))"
  using assms by (auto simp: fetch_trademark_details_def split: sum.splits)

lemma fetch_completed_id:
  assumes "fetch_trademark_details w i tok b = Inr d"
  shows "detail_id d = i"
  using assms by (auto simp: fetch_trademark_details_def split: sum.splits if_splits)

lemma fetch_raised:
  assumes "network w (detail_request i tok b) = Inl e"
  shows "fetch_trademark_details w i tok b = Inl e"
  using assms by (simp add: fetch_trademark_details_def)

lemma fetch_details_ids:
  assumes "fst (fetch_details w top_ids tok b) = Inr detail_results"
  shows "map detail_id detail_results = top_ids"
proof -
  have "map (\<lambda>i. fetch_trademark_details w i tok b) top_ids = map Inr detail_results"
    using assms gather_returned by (simp add: fetch_details_def)
  then have "list_all2 (\<lambda>i d. fetch_trademark_details w i tok b = Inr d) top_ids detail_results"
    by (simp add: list_all2_conv_all_nth list_eq_iff_nth_eq)
  then show ?thesis
    by (induction rule: list_all2_induct) (auto dest: fetch_completed_id)
qed

lemma fetch_details_all_completed:
  assumes "\<forall>i\<in>set top_ids. \<exists>response. network w (detail_request i tok b) = Inr response
             \<and> (\<forall>e. resp_json response = Inl e \<longrightarrow> is_exception e)"
  shows "\<exists>detail_results. fst (fetch_details w top_ids tok b) = Inr detail_results"
proof -
  have "\<forall>r\<in>set (map (\<lambda>i. fetch_trademark_details w i tok b) top_ids). \<not> isl r"
    using assms fetch_completed by fastforce
  from gather_all_returned [OF this] show ?thesis by (simp add: fetch_details_def)
qed

lemma fetch_details_one_raised:
  assumes "i \<in> set top_ids" and "network w (detail_request i tok b) = Inl e"
  shows "\<exists>e'. fst (fetch_details w top_ids tok b) = Inl e'"
proof -
  have "fetch_trademark_details w i tok b = Inl e" by (rule fetch_raised [OF assms(2)])
  then have "Inl e \<in> set (map (\<lambda>i. fetch_trademark_details w i tok b) top_ids)"
    using assms(1) by force
  then have "\<exists>r\<in>set (map (\<lambda>i. fetch_trademark_details w i tok b) top_ids). isl r"
    by (intro bexI [of _ "Inl e"]) simp_all
  from gather_one_raised [OF this] show ?thesis by (auto simp: fetch_details_def)
qed

lemma parsed_ids:
  assumes "map_exn (parse_detail order) detail_results = Inr parsed"
  shows "map tm_id parsed = map detail_id detail_results"
  using assms by (rule map_exn_map) (rule parse_detail_id)

lemma after_search_requests:
  assumes "parse_quick_search data = Inr (count, trademark_ids)"
    and "count \<noteq> 0" "trademark_ids \<noteq> []"
  shows "sent (snd (after_search w q tok b data))
         = sent w @ map (\<lambda>i. detail_request i tok b) (take 5 trademark_ids)"
  using assms
  by (auto simp: after_search_def Let_def fetch_details_def split: sum.splits prod.splits)

section \<open>The token cache\<close>

lemma token_fresh:
  "get_ipau_access_token (fresh_world b) = (Inl (name_error ''token_url''), fresh_world b)"
  by (simp add: get_ipau_access_token_def getenv_default_def env_fresh fresh_fields unset_simps
      request_new_token_def)


lemma request_new_token_keeps_cache:
  "cached_token (snd (request_new_token w)) = cached_token w"
  by (simp add: request_new_token_def Let_def split: option.splits sum.splits)

lemma get_token_keeps_cache:
  "cached_token (snd (get_ipau_access_token w)) = cached_token w"
  by (simp add: get_ipau_access_token_def Let_def request_new_token_keeps_cache
      split: option.splits)

lemma bound_token:
  "fst (get_ipau_access_token (bound_world ''https://tm.example'')) = Inr (PStr ''NEW'')"
  by code_simp

lemma bound_token_cache:
  "cached_token (snd (get_ipau_access_token (bound_world ''https://tm.example''))) = None"
  by (simp add: get_token_keeps_cache bound_world_def fresh_fields)

lemma bound_token_sent:
  "sent (snd (get_ipau_access_token (bound_world ''https://tm.example'')))
   = [token_request ''https://auth.example/token'' ''client'' ''secret'']"
  by code_simp

lemma bound_token_again:
  "sent (snd (get_ipau_access_token
           ((snd (get_ipau_access_token (bound_world ''https://tm.example'')))
              \<lparr>now_ms := 1700000000010\<rparr>)))
   = [token_request ''https://auth.example/token'' ''client'' ''secret'',
      token_request ''https://auth.example/token'' ''client'' ''secret'']"
  by code_simp

text \<open>
  C1 does not hold of the code. In a configured process without a cached token,
  \<open>get_ipau_access_token\<close> calls \<open>request_new_token\<close>, which raises \<open>NameError\<close> for
  \<open>token_url\<close> before any request is sent: the name is a local of the caller. Even
  where the three names are bound at module level and the endpoint answers with a token,
  the token is returned but \<open>_cached_token\<close> stays \<open>None\<close>, since the assignment in
  \<open>request_new_token\<close> binds a local; a second call 10 ms later sends a second token
  request. In every world the call leaves the cache as it was.
\<close>

theorem refreshed_token_is_not_cached:
  "get_ipau_access_token (fresh_world ''https://tm.example'')
     = (Inl (name_error ''token_url''), fresh_world ''https://tm.example'')
   \<and> sent (fresh_world ''https://tm.example'') = []
   \<and> fst (get_ipau_access_token (bound_world ''https://tm.example'')) = Inr (PStr ''NEW'')
   \<and> cached_token (snd (get_ipau_access_token (bound_world ''https://tm.example''))) = None
   \<and> sent (snd (get_ipau_access_token (bound_world ''https://tm.example'')))
       = [token_request ''https://auth.example/token'' ''client'' ''secret'']
   \<and> sent (snd (get_ipau_access_token
               ((snd (get_ipau_access_token (bound_world ''https://tm.example'')))
                  \<lparr>now_ms := 1700000000010\<rparr>)))
       = [token_request ''https://auth.example/token'' ''client'' ''secret'',
          token_request ''https://auth.example/token'' ''client'' ''secret'']
   \<and> cached_token (snd (get_ipau_access_token w)) = cached_token w"
  using token_fresh [of "''https://tm.example''"] fresh_fields(7) [of "''https://tm.example''"]
    bound_token bound_token_cache bound_token_sent bound_token_again get_token_keeps_cache [of w]
  by simp

section \<open>Sorting the class codes\<close>

lemma decimal_not_special:
  assumes "is_decimal c"
  shows "\<not> int_isspace c" "c \<noteq> CHR ''-''" "c \<noteq> CHR ''+''" "c \<noteq> CHR ''_''"
  using assms by (auto simp: is_decimal_def int_isspace_def)

lemma valid_digits_decimal:
  "s \<noteq> [] \<Longrightarrow> list_all is_decimal s \<Longrightarrow> valid_digits s"
  by (induction s rule: valid_digits.induct) (auto simp: decimal_not_special)

lemma dropWhile_none: "\<forall>x\<in>set xs. \<not> P x \<Longrightarrow> dropWhile P xs = xs"
  by (cases xs) simp_all

lemma int_strip_no_space:
  assumes "\<forall>c\<in>set s. \<not> int_isspace c"
  shows "int_strip s = s"
  using assms by (simp add: int_strip_def dropWhile_none)

lemma int_of_decimal:
  assumes "s \<noteq> []" and "list_all is_decimal s" and "length s \<le> max_str_digits"
  shows "int_of_str s = Inr (int (dec_value s))"
proof -
  have "\<forall>c\<in>set s. \<not> int_isspace c"
    using assms(2) by (auto simp: list_all_iff decimal_not_special)
  then have strip: "int_strip s = s" by (rule int_strip_no_space)
  have "is_decimal (hd s)" using assms by (cases s) simp_all
  then have unsigned: "hd s \<noteq> CHR ''-''" "hd s \<noteq> CHR ''+''"
    by (simp_all add: decimal_not_special)
  have all: "\<forall>c\<in>set s. is_decimal c \<or> c = CHR ''_''"
    using assms(2) by (simp add: list_all_iff)
  have scanned: "takeWhile (\<lambda>c. is_decimal c \<or> c = CHR ''_'') s = s"
    using all by (simp add: takeWhile_eq_all_conv)
  have rest: "dropWhile (\<lambda>c. is_decimal c \<or> c = CHR ''_'') s = []"
    using all by simp
  have digits: "filter is_decimal s = s"
    using assms(2) by (simp add: list_all_iff)
  show ?thesis
    using unsigned valid_digits_decimal [OF assms(1,2)] assms(3)
    by (simp add: int_of_str_def Let_def strip scanned rest digits)
qed

lemma class_sort_key_plain:
  assumes "py_isdigit s \<longrightarrow> list_all is_decimal s \<and> length s \<le> max_str_digits"
  shows "class_sort_key s = Inr (class_key s)"
  using assms int_of_decimal [of s]
  by (auto simp: class_sort_key_def class_key_def py_isdigit_def)

lemma map_exn_total:
  assumes "\<forall>x\<in>set xs. f x = Inr (g x)"
  shows "map_exn f xs = Inr (map g xs)"
  using assms by (induction xs) simp_all

lemma insort_key_pairs:
  "insort_key fst (f x, x) (map (\<lambda>x. (f x, x)) ys) = map (\<lambda>x. (f x, x)) (insort_key f x ys)"
  by (induction ys) simp_all

lemma sort_key_pairs:
  "sort_key fst (map (\<lambda>x. (f x, x)) xs) = map (\<lambda>x. (f x, x)) (sort_key f xs)"
  by (induction xs) (simp_all add: insort_key_pairs)

lemma sorted_by_key_total:
  assumes "\<forall>x\<in>set xs. key x = Inr (f x)"
  shows "sorted_by_key key xs = Inr (sort_key f xs)"
proof -
  have "zip (map f xs) xs = map (\<lambda>x. (f x, x)) xs"
    by (induction xs) simp_all
  then show ?thesis
    using map_exn_total [OF assms]
    by (simp add: sorted_by_key_def sort_key_pairs comp_def)
qed

lemma set_iter_set [simp]: "set (set_iter order xs) = set xs"
  by (simp add: set_iter_def)

lemma set_iter_distinct [simp]: "distinct (set_iter order xs)"
  by (simp add: set_iter_def)

lemma sort_key_unique:
  assumes "distinct xs" and "distinct ys" and "set xs = set ys"
    and "inj_on f (set xs)" and "sorted (map f ys)"
  shows "sort_key f xs = ys"
proof -
  have "map f (sort_key f xs) = map f ys"
  proof (rule sorted_distinct_set_unique)
    show "sorted (map f (sort_key f xs))" by (rule sorted_sort_key)
    show "distinct (map f (sort_key f xs))"
      using assms(1,4) by (simp add: distinct_map)
    show "sorted (map f ys)" by (rule assms(5))
    show "distinct (map f ys)"
      using assms(2,3,4) by (simp add: distinct_map)
    show "set (map f (sort_key f xs)) = set (map f ys)"
      using assms(3) by simp
  qed
  moreover have "inj_on f (set (sort_key f xs) \<union> set ys)"
    using assms(3,4) by simp
  ultimately show ?thesis by (simp add: inj_on_map_eq_map)
qed

lemma extract_plain:
  assumes "\<forall>s\<in>set (numbers (candidates d)).
             py_isdigit s \<longrightarrow> list_all is_decimal s \<and> length s \<le> max_str_digits"
  shows "extract_nice_classes order (PDict d)
         = Inr (sort_key class_key (set_iter order (numbers (candidates d))))"
proof -
  have "\<forall>s\<in>set (set_iter order (numbers (candidates d))). class_sort_key s = Inr (class_key s)"
    using assms class_sort_key_plain by simp
  from sorted_by_key_total [OF this] show ?thesis
    by (simp add: extract_nice_classes_def)
qed

lemma dropWhile_hd: "xs = [] \<or> \<not> P (hd xs) \<Longrightarrow> dropWhile P xs = xs"
  by (cases xs) auto

lemma py_strip_idem: "py_strip (py_strip s) = py_strip s"
proof -
  define a where "a = dropWhile py_isspace s"
  define r where "r = dropWhile py_isspace (rev a)"
  have t: "py_strip s = rev r"
    by (simp add: py_strip_def py_lstrip_def py_rstrip_def a_def r_def)
  have r_hd: "r = [] \<or> \<not> py_isspace (hd r)"
    unfolding r_def using hd_dropWhile [of py_isspace "rev a"] by blast
  have a_hd: "a = [] \<or> \<not> py_isspace (hd a)"
    unfolding a_def using hd_dropWhile [of py_isspace s] by blast
  have "rev a = takeWhile py_isspace (rev a) @ r"
    by (simp add: r_def)
  then have "a = rev r @ rev (takeWhile py_isspace (rev a))"
    by (metis rev_append rev_rev_ident)
  then have "rev r \<noteq> [] \<Longrightarrow> hd (rev r) = hd a \<and> a \<noteq> []"
    by (metis hd_append2 append_is_Nil_conv)
  then have front: "rev r = [] \<or> \<not> py_isspace (hd (rev r))"
    using a_hd by auto
  have "dropWhile py_isspace (rev r) = rev r"
    using front by (rule dropWhile_hd)
  moreover have "dropWhile py_isspace r = r"
    using r_hd by (rule dropWhile_hd)
  ultimately have "py_strip (rev r) = rev r"
    by (simp add: py_strip_def py_lstrip_def py_rstrip_def)
  then show ?thesis by (simp add: t)
qed

lemma numbers_trimmed:
  "s \<in> set (numbers cs) \<Longrightarrow> s \<noteq> [] \<and> py_strip s = s"
  by (induction cs) (auto simp: Let_def py_strip_idem split: if_splits)

lemma numbers_source:
  "s \<in> set (numbers cs) \<Longrightarrow>
   \<exists>c\<in>set cs. class_number c \<noteq> PNone \<and> s = py_strip (py_str (class_number c))"
  by (induction cs) (auto simp: Let_def split: if_splits)

lemma sorted_positions:
  assumes "sorted (map f ys)" and "i < length ys" and "j < length ys"
    and "f (ys ! i) < f (ys ! j)"
  shows "i < j"
proof (rule ccontr)
  assume "\<not> i < j"
  then have "j \<le> i" by simp
  then have "map f ys ! j \<le> map f ys ! i"
    using assms(1,2) by (simp add: sorted_iff_nth_mono del: nth_map)
  then show False using assms(2,3,4) by simp
qed

lemma class_key_values:
  "class_key ''7'' = 7" "class_key ''9'' = 9" "class_key ''35'' = 35"
  "class_key ''abc'' = 999" "class_key ''1000'' = 1000"
  by code_simp+

lemma plain_values:
  "list_all is_decimal ''7'' \<and> length ''7'' \<le> max_str_digits"
  "list_all is_decimal ''9'' \<and> length ''9'' \<le> max_str_digits"
  "list_all is_decimal ''35'' \<and> length ''35'' \<le> max_str_digits"
  "\<not> py_isdigit ''abc''"
  by code_simp+

lemma extract_35_9_7:
  assumes "set (numbers (candidates d)) = {''35'', ''9'', ''7''}"
  shows "extract_nice_classes order (PDict d) = Inr [''7'', ''9'', ''35'']"
proof -
  have "\<forall>s\<in>set (numbers (candidates d)).
          py_isdigit s \<longrightarrow> list_all is_decimal s \<and> length s \<le> max_str_digits"
    using assms plain_values by auto
  then have "extract_nice_classes order (PDict d)
             = Inr (sort_key class_key (set_iter order (numbers (candidates d))))"
    by (rule extract_plain)
  moreover have "sort_key class_key (set_iter order (numbers (candidates d)))
                 = [''7'', ''9'', ''35'']"
  proof (rule sort_key_unique)
    show "distinct (set_iter order (numbers (candidates d)))" by simp
    show "distinct [''7'', ''9'', ''35'']" by simp
    show "set (set_iter order (numbers (candidates d))) = set [''7'', ''9'', ''35'']"
      using assms by auto
    show "inj_on class_key (set (set_iter order (numbers (candidates d))))"
      using assms by (simp add: class_key_values)
    show "sorted (map class_key [''7'', ''9'', ''35''])"
      by (simp add: class_key_values)
  qed
  ultimately show ?thesis by simp
qed

lemma extract_35_abc_7:
  assumes "set (numbers (candidates d)) = {''35'', ''abc'', ''7''}"
  shows "extract_nice_classes order (PDict d) = Inr [''7'', ''35'', ''abc'']"
proof -
  have "\<forall>s\<in>set (numbers (candidates d)).
          py_isdigit s \<longrightarrow> list_all is_decimal s \<and> length s \<le> max_str_digits"
    using assms plain_values by auto
  then have "extract_nice_classes order (PDict d)
             = Inr (sort_key class_key (set_iter order (numbers (candidates d))))"
    by (rule extract_plain)
  moreover have "sort_key class_key (set_iter order (numbers (candidates d)))
                 = [''7'', ''35'', ''abc'']"
  proof (rule sort_key_unique)
    show "distinct (set_iter order (numbers (candidates d)))" by simp
    show "distinct [''7'', ''35'', ''abc'']" by simp
    show "set (set_iter order (numbers (candidates d))) = set [''7'', ''35'', ''abc'']"
      using assms by auto
    show "inj_on class_key (set (set_iter order (numbers (candidates d))))"
      using assms by (simp add: class_key_values)
    show "sorted (map class_key [''7'', ''35'', ''abc''])"
      by (simp add: class_key_values)
  qed
  ultimately show ?thesis by simp
qed

lemma example_numbers:
  "numbers (candidates direct_record) = [''35'', ''9'', ''35'', ''7'']"
  "numbers (candidates nested_record) = [''35'', ''9'', ''35'', ''7'']"
  "numbers (candidates items_record) = [''35'', ''9'', ''35'', ''7'']"
  "numbers (candidates mixed_record) = [''35'', ''abc'', ''7'']"
  "candidates malformed_record = []"
  by code_simp+

lemma superscript_raises:
  "extract_nice_classes order (PDict superscript_record)
   = Inl (ValueError (''invalid literal for int() with base 10: '' @ [CHR 0x27, CHR 0xB2, CHR 0x27]))"
proof -
  have n: "numbers (candidates superscript_record) = [[CHR 0xB2]]" by code_simp
  have k: "class_sort_key [CHR 0xB2]
           = Inl (ValueError (''invalid literal for int() with base 10: ''
                              @ [CHR 0x27, CHR 0xB2, CHR 0x27]))"
    by code_simp
  show ?thesis
    by (simp add: extract_nice_classes_def n set_iter_def sorted_by_key_def k)
qed

lemma long_code_raises:
  "extract_nice_classes order (PDict long_record)
   = Inl (ValueError (''Exceeds the limit (4300 digits) for integer string conversion: value has 4301 digits; use sys.set_int_max_str_digits() to increase the limit''))"
proof -
  let ?s = "replicate 4301 (CHR ''9'')"
  have dec: "is_decimal (CHR ''9'')" by (simp add: is_decimal_def)
  have nosp: "\<not> py_isspace (CHR ''9'')" by (simp add: py_isspace_def whitespace_chars_def)
  have all: "list_all is_decimal ?s" using dec by (simp add: list_all_iff)
  have ne: "?s \<noteq> []" by simp
  have strip: "py_strip ?s = ?s"
    using nosp by (simp add: py_strip_def py_lstrip_def py_rstrip_def dropWhile_none)
  have n: "numbers (candidates long_record) = [?s]"
    using strip ne
    by (simp add: long_record_def candidates_def get_key_def list_items_def class_number_def
        Let_def)
  have digit: "py_isdigit ?s"
    using dec by (simp add: py_isdigit_def py_isdigit_char_def list_all_iff)
  have "\<forall>c\<in>set ?s. \<not> int_isspace c"
    using dec by (auto simp: decimal_not_special)
  then have istrip: "int_strip ?s = ?s" by (rule int_strip_no_space)
  have hd9: "hd ?s = CHR ''9''" by (simp add: hd_replicate)
  have scanned: "takeWhile (\<lambda>c. is_decimal c \<or> c = CHR ''_'') ?s = ?s"
    using dec by (simp add: takeWhile_eq_all_conv)
  have digits: "filter is_decimal ?s = ?s" using dec by simp
  have four: "dec_nat 4301 = ''4301''" by code_simp
  have "int_of_str ?s
        = Inl (ValueError (''Exceeds the limit (4300 digits) for integer string conversion: value has 4301 digits; use sys.set_int_max_str_digits() to increase the limit''))"
    using valid_digits_decimal [OF ne all] dec
    by (simp add: int_of_str_def Let_def istrip hd9 scanned digits max_str_digits_def four)
  then have k: "class_sort_key ?s
        = Inl (ValueError (''Exceeds the limit (4300 digits) for integer string conversion: value has 4301 digits; use sys.set_int_max_str_digits() to increase the limit''))"
    using digit by (simp add: class_sort_key_def)
  show ?thesis
    by (simp add: extract_nice_classes_def n set_iter_def sorted_by_key_def k)
qed

text \<open>
  C4, as stated, fails: a numeric code does not always come before a non-numeric one.
  The key of a non-numeric code is 999, so the code \<open>1000\<close> is sorted after \<open>abc\<close>.
  (That the function never fails does not hold either: \<open>isdigit()\<close> lets a superscript
  digit and a code of more than 4300 digits through to \<open>int()\<close>, which raises; see
  \<open>superscript_raises\<close> and \<open>long_code_raises\<close>.)
\<close>

theorem large_code_sorts_after_text:
  "extract_nice_classes insertion_order (PDict large_record) = Inr [''abc'', ''1000'']
   \<and> int_of_str ''1000'' = Inr 1000
   \<and> \<not> py_isdigit ''abc''"
  by code_simp

text \<open>
  C4, amended. For a raw record as the JSON decoder returns it (no integer of more than
  4300 digits) in which every code that passes \<open>isdigit()\<close> is written with the digits
  0 to 9 only and has at most 4300 of them, \<open>extract_nice_classes\<close> returns the collected
  codes: each the trimmed, non-empty text
  of a class number, each once, sorted by the key that is the integer value of an
  all-digit code and 999 of any other code. So a code with a smaller key stands before
  a code with a larger one: numbers below 999 before every non-numeric code, numbers
  above 999 after them; codes with the same key keep the order in which the set is read.
  Records holding the classes 35, 9, 35, 7 give \<open>7, 9, 35\<close> and records holding
  35, abc, 7 give \<open>7, 35, abc\<close>, in each shape and for every order of the set; a record
  without candidate lists gives the empty list.
\<close>

theorem classes_are_sorted_by_key:
  assumes "decoded (PDict d)"
    and "\<forall>s\<in>set (numbers (candidates d)).
           py_isdigit s \<longrightarrow> list_all is_decimal s \<and> length s \<le> max_str_digits"
  shows "(\<exists>ys. extract_nice_classes order (PDict d) = Inr ys
            \<and> set ys = set (numbers (candidates d))
            \<and> distinct ys
            \<and> (\<forall>s\<in>set ys. s \<noteq> [] \<and> py_strip s = s)
            \<and> sorted (map class_key ys)
            \<and> (\<forall>i<length ys. \<forall>j<length ys. class_key (ys ! i) < class_key (ys ! j) \<longrightarrow> i < j)
            \<and> (\<forall>k. filter (\<lambda>s. class_key s = k) ys
                     = filter (\<lambda>s. class_key s = k) (set_iter order (numbers (candidates d)))))
         \<and> (set (numbers (candidates d1)) = {''35'', ''9'', ''7''} \<longrightarrow>
              extract_nice_classes order (PDict d1) = Inr [''7'', ''9'', ''35''])
         \<and> (set (numbers (candidates d2)) = {''35'', ''abc'', ''7''} \<longrightarrow>
              extract_nice_classes order (PDict d2) = Inr [''7'', ''35'', ''abc''])
         \<and> (candidates d3 = [] \<longrightarrow> extract_nice_classes order (PDict d3) = Inr [])
         \<and> numbers (candidates direct_record) = [''35'', ''9'', ''35'', ''7'']
         \<and> numbers (candidates nested_record) = [''35'', ''9'', ''35'', ''7'']
         \<and> numbers (candidates items_record) = [''35'', ''9'', ''35'', ''7'']
         \<and> numbers (candidates mixed_record) = [''35'', ''abc'', ''7'']
         \<and> candidates malformed_record = []"
proof -
  let ?nums = "numbers (candidates d)"
  let ?ys = "sort_key class_key (set_iter order ?nums)"
  have res: "extract_nice_classes order (PDict d) = Inr ?ys"
    using assms(2) by (rule extract_plain)
  have s: "sorted (map class_key ?ys)" by (rule sorted_sort_key)
  have "\<forall>i<length ?ys. \<forall>j<length ?ys. class_key (?ys ! i) < class_key (?ys ! j) \<longrightarrow> i < j"
    using sorted_positions [OF s] by blast
  moreover have "\<forall>s\<in>set ?ys. s \<noteq> [] \<and> py_strip s = s"
    using numbers_trimmed by simp
  moreover have "\<forall>k. filter (\<lambda>s. class_key s = k) ?ys
                     = filter (\<lambda>s. class_key s = k) (set_iter order ?nums)"
    by (simp add: sort_key_stable)
  moreover have "set ?ys = set ?nums" "distinct ?ys" by simp_all
  ultimately have main: "\<exists>ys. extract_nice_classes order (PDict d) = Inr ys
            \<and> set ys = set ?nums
            \<and> distinct ys
            \<and> (\<forall>s\<in>set ys. s \<noteq> [] \<and> py_strip s = s)
            \<and> sorted (map class_key ys)
            \<and> (\<forall>i<length ys. \<forall>j<length ys. class_key (ys ! i) < class_key (ys ! j) \<longrightarrow> i < j)
            \<and> (\<forall>k. filter (\<lambda>s. class_key s = k) ys
                     = filter (\<lambda>s. class_key s = k) (set_iter order ?nums))"
    using res s by blast
  have empty: "candidates d3 = [] \<longrightarrow> extract_nice_classes order (PDict d3) = Inr []"
    by (simp add: extract_nice_classes_def set_iter_def sorted_by_key_def)
  show ?thesis
    using main extract_35_9_7 [of d1 order] extract_35_abc_7 [of d2 order] empty example_numbers
    by blast
qed

theorem classes_are_sorted_by_key_witness:
  "decoded (PDict mixed_record)
   \<and> numbers (candidates mixed_record) = [''35'', ''abc'', ''7'']
   \<and> list_all is_decimal ''35'' \<and> length ''35'' \<le> max_str_digits
   \<and> \<not> py_isdigit ''abc''
   \<and> list_all is_decimal ''7'' \<and> length ''7'' \<le> max_str_digits
   \<and> extract_nice_classes insertion_order (PDict mixed_record) = Inr [''7'', ''35'', ''abc'']
   \<and> map class_key [''7'', ''35'', ''abc''] = [7, 35, 999]
   \<and> extract_nice_classes insertion_order (PDict direct_record) = Inr [''7'', ''9'', ''35'']
   \<and> extract_nice_classes insertion_order (PDict nested_record) = Inr [''7'', ''9'', ''35'']
   \<and> extract_nice_classes insertion_order (PDict items_record) = Inr [''7'', ''9'', ''35'']
   \<and> extract_nice_classes insertion_order (PDict malformed_record) = Inr []"
proof -
  have plain: "\<forall>s\<in>set (numbers (candidates mixed_record)).
                 py_isdigit s \<longrightarrow> list_all is_decimal s \<and> length s \<le> max_str_digits"
    using plain_values by (simp add: example_numbers)
  have direct: "set (numbers (candidates direct_record)) = {''35'', ''9'', ''7''}"
    by (auto simp: example_numbers)
  have mixed: "set (numbers (candidates mixed_record)) = {''35'', ''abc'', ''7''}"
    by (auto simp: example_numbers)
  have nested: "set (numbers (candidates nested_record)) = {''35'', ''9'', ''7''}"
    by (auto simp: example_numbers)
  have items: "set (numbers (candidates items_record)) = {''35'', ''9'', ''7''}"
    by (auto simp: example_numbers)
  have dec: "decoded (PDict mixed_record)" by code_simp
  note t = classes_are_sorted_by_key
             [OF dec plain, of insertion_order _ mixed_record malformed_record]
  have "extract_nice_classes insertion_order (PDict mixed_record) = Inr [''7'', ''35'', ''abc'']"
    using t [of direct_record] mixed by blast
  moreover have "extract_nice_classes insertion_order (PDict direct_record)
                 = Inr [''7'', ''9'', ''35'']"
    using t [of direct_record] direct by blast
  moreover have "extract_nice_classes insertion_order (PDict nested_record)
                 = Inr [''7'', ''9'', ''35'']"
    using t [of nested_record] nested by blast
  moreover have "extract_nice_classes insertion_order (PDict items_record)
                 = Inr [''7'', ''9'', ''35'']"
    using t [of items_record] items by blast
  moreover have "extract_nice_classes insertion_order (PDict malformed_record) = Inr []"
    using t [of direct_record] example_numbers(5) by blast
  ultimately show ?thesis
    using plain_values dec by (simp add: example_numbers class_key_values)
qed

section \<open>The top-level handler\<close>
































section \<open>A fetch that raises\<close>

text \<open>
  C9 does not hold of the code: a fetch can raise. \<open>fetch_trademark_details\<close> turns a
  non-success status and a body that is not JSON into an error value for the id, but the
  call of \<open>client.get\<close> is outside its \<open>try\<close>, and \<open>asyncio.gather\<close> is called without
  \<open>return_exceptions\<close>. Under \<open>flaky.example\<close> the search finds the marks 100 and 200;
  the fetch for 100 returns the record of an exact match, while the HTTP client raises
  during the fetch for 200. That exception leaves \<open>fetch_trademark_details\<close>, ends the
  whole fan-out, and the check returns \<open>unknown\<close> instead of \<open>taken\<close>.
\<close>

theorem raising_fetch_aborts_the_check:
  "fetch_trademark_details (primed_world ''https://flaky.example'') (PStr ''200'') (PStr ''T'')
     ''https://flaky.example'' = Inl (TransportError ''All connection attempts failed'')
   \<and> fetch_trademark_details (primed_world ''https://flaky.example'') (PStr ''100'') (PStr ''T'')
       ''https://flaky.example'' = Inr (DetailData (PStr ''100'') acme_record)
   \<and> fst (check_ip_australia_trademark (primed_world ''https://flaky.example'') ''acme brew'')
       = Inr (request_failed (TransportError ''All connection attempts failed''))
   \<and> status (request_failed (TransportError ''All connection attempts failed'')) = Unknown"
  by code_simp

end
